theory Spec2Isabelle
  imports Main "HOL-Library.AList"
begin

section \<open>JavaScript values as the proxy sees them\<close>

text \<open>
  A request body is whatever \<^verbatim>\<open>express.json()\<close> parsed: a JSON value. Objects are
  association lists in insertion order, which is the order \<^verbatim>\<open>for..in\<close>, the spread
  operator and \<^verbatim>\<open>JSON.stringify\<close> follow. \<open>JUndefined\<close> is what reading an absent
  property gives. Numbers are the integers; \<^verbatim>\<open>String(n)\<close> writes them in decimal, which
  is what JavaScript does for integers of magnitude below \<open>10^21\<close>.
\<close>

datatype jsval =
    JUndefined
  | JNull
  | JBool bool
  | JNum int
  | JStr string
  | JArr "jsval list"
  | JObj "(string \<times> jsval) list"

type_synonym jsobj = "(string \<times> jsval) list"

datatype js_error = TypeError string | SyntaxError string | URIError string | NetworkError string

fun message :: "js_error \<Rightarrow> string" where
  "message (TypeError m) = m"
| "message (SyntaxError m) = m"
| "message (URIError m) = m"
| "message (NetworkError m) = m"

text \<open>Truthiness, as \<^verbatim>\<open>!x\<close>, \<^verbatim>\<open>x || y\<close> and \<^verbatim>\<open>if (x)\<close> test it.\<close>

fun truthy :: "jsval \<Rightarrow> bool" where
  "truthy JUndefined = False"
| "truthy JNull = False"
| "truthy (JBool b) = b"
| "truthy (JNum n) = (n \<noteq> 0)"
| "truthy (JStr s) = (s \<noteq> [])"
| "truthy (JArr xs) = True"
| "truthy (JObj kvs) = True"

text \<open>
  \<^verbatim>\<open>body[k]\<close> on a parsed object, for a name \<open>k\<close> that \<^verbatim>\<open>Object.prototype\<close> does not
  define (none of the names the server reads is one): the own property, or undefined.
\<close>

definition get :: "jsobj \<Rightarrow> string \<Rightarrow> jsval" where
  "get body k = (case map_of body k of None \<Rightarrow> JUndefined | Some v \<Rightarrow> v)"

text \<open>
  The own properties a handler can read by name from \<^verbatim>\<open>req.body\<close>: those of an object;
  an array, a primitive and the \<^verbatim>\<open>{}\<close> of \<^verbatim>\<open>req.body || {}\<close> have none of the names read.
\<close>

fun fields_of :: "jsval \<Rightarrow> jsobj" where
  "fields_of (JObj kvs) = kvs"
| "fields_of v = []"

subsection \<open>\<^verbatim>\<open>String(v)\<close>\<close>

function nat_digits :: "nat \<Rightarrow> string" where
  "nat_digits n =
     (if n < 10 then [char_of (48 + n)]
      else nat_digits (n div 10) @ [char_of (48 + n mod 10)])"
  by pat_completeness auto
termination
  by (relation "measure id") auto

declare nat_digits.simps [simp del]

definition Number_toString :: "int \<Rightarrow> string" where
  "Number_toString i = (if i < 0 then CHR ''-'' # nat_digits (nat (- i)) else nat_digits (nat i))"

text \<open>
  \<^verbatim>\<open>String(v)\<close> is the ToString conversion. On an array it is \<^verbatim>\<open>join(",")\<close>, where a
  null or undefined element gives the empty string. On an object it calls the object's
  \<^verbatim>\<open>toString\<close>: the inherited one answers \<^verbatim>\<open>[object Object]\<close>, but a parsed object
  with an own property named \<^verbatim>\<open>toString\<close> (never a function, coming from JSON) has no
  callable conversion left and the call throws a TypeError.
\<close>

definition cannot_convert :: string where
  "cannot_convert = ''Cannot convert object to primitive value''"

fun String_js :: "jsval \<Rightarrow> js_error + string"
and join_js :: "jsval list \<Rightarrow> js_error + string"
where
  "String_js JUndefined = Inr ''undefined''"
| "String_js JNull = Inr ''null''"
| "String_js (JBool b) = Inr (if b then ''true'' else ''false'')"
| "String_js (JNum n) = Inr (Number_toString n)"
| "String_js (JStr s) = Inr s"
| "String_js (JArr xs) = join_js xs"
| "String_js (JObj kvs) =
     (if ''toString'' \<in> fst ` set kvs then Inl (TypeError cannot_convert)
      else Inr ''[object Object]'')"
| "join_js [] = Inr []"
| "join_js (x # xs) =
     (case (case x of JUndefined \<Rightarrow> Inr [] | JNull \<Rightarrow> Inr [] | _ \<Rightarrow> String_js x) of
        Inl e \<Rightarrow> Inl e
      | Inr s \<Rightarrow>
          (if xs = [] then Inr s
           else (case join_js xs of Inl e \<Rightarrow> Inl e | Inr t \<Rightarrow> Inr (s @ '','' @ t))))"

section \<open>The Field Whitelist Translator\<close>

text \<open>
  The loop shared by every translator:
  \<^verbatim>\<open>for (const k of fields) { if (body[k] !== undefined) params[k] = String(body[k]); }\<close>
  An assignment to an existing key keeps its place, a new key goes last
  (\<^const>\<open>AList.update\<close>). A throwing \<^verbatim>\<open>String\<close> leaves the loop.
\<close>

fun copy_fields :: "jsobj \<Rightarrow> string list \<Rightarrow> jsobj \<Rightarrow> js_error + jsobj" where
  "copy_fields body [] params = Inr params"
| "copy_fields body (k # ks) params =
     (if get body k \<noteq> JUndefined
      then (case String_js (get body k) of
              Inl e \<Rightarrow> Inl e
            | Inr s \<Rightarrow> copy_fields body ks (AList.update k (JStr s) params))
      else copy_fields body ks params)"

subsection \<open>\<^verbatim>\<open>buildCompulifeParams\<close> (server.js)\<close>

text \<open>The whitelist of server.js, in the source's order; it names \<^verbatim>\<open>CholesterolMedication\<close> twice.\<close>

definition compulife_fields :: "string list" where
  "compulife_fields =
    [''State'', ''BirthMonth'', ''Birthday'', ''BirthYear'', ''Sex'', ''Smoker'', ''Health'',
     ''NewCategory'', ''FaceAmount'', ''ModeUsed'',
     ''Province'', ''Birthdate'', ''Premium'', ''Mode'', ''TermPeriod'', ''Plan'',
     ''TableRating'', ''InquiryType'', ''ResultType'', ''NumberOfCompanies'',
     ''DisplayFlags'', ''DropCompanies'',
     ''ZipCode'', ''COMPINC'', ''PRODDIS'', ''CompRating'', ''SortOverride1'',
     ''ErrOnMissingZipCode'', ''MaxNumResults'', ''LANGUAGE'',
     ''Alcohol'', ''AlcoholYearsSinceTreatment'',
     ''Asthma'', ''AsthmaRegularMedication'',
     ''BloodPressure'', ''BloodPressureMedication'', ''BPSystolic'', ''BPDiastolic'',
     ''Cancer'', ''CancerType'', ''CancerYearsSinceTreatment'',
     ''Cholesterol'', ''CholesterolMedication'', ''CholesterolReading'',
     ''Diabetes'', ''DiabetesType'', ''DiabetesA1CReading'',
     ''HeartDisease'', ''HeartType'', ''HeartYearsSinceTreatment'',
     ''Depression'', ''DepressionYearsSinceTreatment'',
     ''Drugs'', ''DrugsYearsSinceTreatment'',
     ''EmbeddedAccums'', ''EmbeddedAccumColor'', ''NoRedX'',
     ''DoSmokingTobacco'', ''DoCigarettes'', ''PeriodCigarettes'', ''NumCigarettes'',
     ''DoCigars'', ''PeriodCigars'', ''NumCigars'', ''DoPipe'', ''PeriodPipe'',
     ''DoChewingTobacco'', ''PeriodChewingTobacco'',
     ''DoNicotinePatchesOrGum'', ''PeriodNicotinePatchesOrGum'',
     ''DoHeightWeight'', ''Weight'', ''Feet'', ''Inches'',
     ''DoBloodPressure'', ''Systolic'', ''Dystolic'',
     ''DoCholesterol'', ''CholesterolLevel'', ''HDLRatio'', ''CholesterolMedication'',
     ''DoDriving'', ''HadDriversLicense'', ''RecklessConviction'', ''DwiConviction'',
     ''SuspendedConviction'', ''MoreThanOneAccident'',
     ''DoFamily'', ''NumDeaths'', ''NumContracted'',
     ''DoSubAbuse'']"

definition buildCompulifeParams :: "jsobj \<Rightarrow> js_error + jsobj" where
  "buildCompulifeParams body = copy_fields body compulife_fields []"

subsection \<open>\<^verbatim>\<open>buildQuoteParams\<close> and \<^verbatim>\<open>buildHealthParams\<close> (the two Railway servers)\<close>

definition required :: "string list" where
  "required =
    [''State'', ''BirthMonth'', ''Birthday'', ''BirthYear'',
     ''Sex'', ''Smoker'', ''Health'', ''NewCategory'', ''FaceAmount'', ''ModeUsed'']"

definition optional :: "string list" where
  "optional =
    [''ZipCode'', ''COMPINC'', ''PRODDIS'', ''CompRating'',
     ''SortOverride1'', ''ErrOnMissingZipCode'', ''MaxNumResults'', ''LANGUAGE'']"

text \<open>
  \<^verbatim>\<open>if (!params.K) params.K = d\<close>: the test is on what the loop stored, so it passes
  when nothing was stored and also when the stored string is empty.
\<close>

definition default_if_falsy :: "string \<Rightarrow> string \<Rightarrow> jsobj \<Rightarrow> jsobj" where
  "default_if_falsy k d params =
     (if \<not> truthy (get params k) then AList.update k (JStr d) params else params)"

definition buildQuoteParams :: "jsobj \<Rightarrow> js_error + jsobj" where
  "buildQuoteParams body =
     (case copy_fields body required [] of
        Inl e \<Rightarrow> Inl e
      | Inr p1 \<Rightarrow>
          (case copy_fields body optional p1 of
             Inl e \<Rightarrow> Inl e
           | Inr p2 \<Rightarrow>
               Inr (default_if_falsy ''LANGUAGE'' ''E''
                     (default_if_falsy ''SortOverride1'' ''A''
                       (default_if_falsy ''CompRating'' ''4'' p2)))))"

definition healthFields :: "string list" where
  "healthFields =
    [''DoSmokingTobacco'', ''DoCigarettes'', ''PeriodCigarettes'', ''NumCigarettes'',
     ''DoCigars'', ''PeriodCigars'', ''NumCigars'',
     ''DoPipe'', ''PeriodPipe'',
     ''DoChewingTobacco'', ''PeriodChewingTobacco'',
     ''DoNicotinePatchesOrGum'', ''PeriodNicotinePatchesOrGum'',
     ''DoHeightWeight'', ''Weight'', ''Feet'', ''Inches'',
     ''DoBloodPressure'', ''Systolic'', ''Dystolic'', ''BloodPressureMedication'',
     ''DoCholesterol'', ''CholesterolLevel'', ''HDLRatio'',
     ''CholesterolMedication'', ''PeriodCholesterol'', ''PeriodCholesterolControlDuration'',
     ''DoDriving'', ''HadDriversLicense'',
     ''MovingViolations0'', ''MovingViolations1'', ''MovingViolations2'',
     ''MovingViolations3'', ''MovingViolations4'',
     ''RecklessConviction'', ''DwiConviction'', ''SuspendedConviction'', ''MoreThanOneAccident'',
     ''PeriodRecklessConviction'', ''PeriodDwiConviction'',
     ''PeriodSuspendedConviction'', ''PeriodMoreThanOneAccident'',
     ''DoFamily'', ''NumDeaths'', ''NumContracted'',
     ''AgeDied00'', ''AgeContracted00'', ''IsParent00'', ''CVD00'', ''ColonCancer00'',
     ''AgeContracted10'', ''IsParent10'', ''CVD10'', ''ColonCancer10'',
     ''DoSubAbuse'', ''Alcohol'', ''AlcYearsSinceTreatment'',
     ''Drugs'', ''DrugsYearsSinceTreatment'',
     ''EmbeddedAccums'', ''EmbeddedAccumColor'', ''NoRedX'']"

definition buildHealthParams :: "jsobj \<Rightarrow> js_error + jsobj" where
  "buildHealthParams body =
     (case buildQuoteParams body of
        Inl e \<Rightarrow> Inl e
      | Inr params \<Rightarrow> copy_fields body healthFields params)"


section \<open>Configuration\<close>

text \<open>
  The constants read once from the environment when the process starts:
  \<^verbatim>\<open>const AUTH_ID = process.env.COMPULIFE_AUTH_ID || "";\<close> and its neighbours. An unset
  variable and an empty one both give the fallback.
\<close>

record config =
  AUTH_ID :: string
  REMOTE_IP :: string
  GHL_API_KEY :: string
  GHL_LOCATION_ID :: string
  ANTHROPIC_API_KEY :: string
  SUPABASE_SERVICE_KEY :: string
  GOOGLE_CLIENT_ID :: string
  GOOGLE_CLIENT_SECRET :: string
  GOOGLE_REFRESH_TOKEN :: string
  GCP_VISION_API_KEY :: string

definition env_or :: "(string \<rightharpoonup> string) \<Rightarrow> string \<Rightarrow> string \<Rightarrow> string" where
  "env_or env name fallback =
     (case env name of None \<Rightarrow> fallback | Some v \<Rightarrow> (if v = [] then fallback else v))"

definition load_config :: "(string \<rightharpoonup> string) \<Rightarrow> config" where
  "load_config env =
     \<lparr> AUTH_ID = env_or env ''COMPULIFE_AUTH_ID'' [],
       REMOTE_IP = env_or env ''REMOTE_IP'' ''162.220.232.99'',
       GHL_API_KEY = env_or env ''GHL_API_KEY'' [],
       GHL_LOCATION_ID = env_or env ''GHL_LOCATION_ID'' [],
       ANTHROPIC_API_KEY = env_or env ''ANTHROPIC_API_KEY'' [],
       SUPABASE_SERVICE_KEY = env_or env ''SUPABASE_SERVICE_KEY'' [],
       GOOGLE_CLIENT_ID = env_or env ''GOOGLE_CLIENT_ID'' [],
       GOOGLE_CLIENT_SECRET = env_or env ''GOOGLE_CLIENT_SECRET'' [],
       GOOGLE_REFRESH_TOKEN = env_or env ''GOOGLE_REFRESH_TOKEN'' [],
       GCP_VISION_API_KEY = env_or env ''GCP_VISION_API_KEY'' [] \<rparr>"

definition COMPULIFE_BASE :: string where
  "COMPULIFE_BASE = ''https://www.compulifeapi.com/api''"

definition GHL_BASE :: string where
  "GHL_BASE = ''https://services.leadconnectorhq.com''"

section \<open>The Downstream Dispatcher\<close>

text \<open>
  An outbound call is kept as the data it is serialised from:
  \<^item> \<open>Get url\<close> is \<^verbatim>\<open>fetch(url)\<close>;
  \<^item> \<open>GetCompulife prefix payload\<close> is \<^verbatim>\<open>fetch(prefix + "/?COMPULIFE=" +
    encodeURIComponent(JSON.stringify(payload)))\<close>, the query-embedded JSON object;
  \<^item> \<open>Send method url headers body\<close> is \<^verbatim>\<open>fetch(url, {method, headers, body})\<close> where the
    body, when there is one, is \<^verbatim>\<open>JSON.stringify\<close> of the value held.
\<close>

datatype request =
    Get string
  | GetCompulife string jsobj
  | Send string string "(string \<times> string) list" "jsval option"

record fetch_response =
  status :: int
  body_text :: string

text \<open>
  What the handlers take from the platform: the network (\<open>fetch\<close> followed by reading the
  body text; \<open>Inl\<close> when either throws), \<^verbatim>\<open>JSON.parse\<close> (\<open>Inl\<close> for its SyntaxError),
  \<^verbatim>\<open>encodeURIComponent\<close> on a string (\<open>Inl\<close> for its URIError) and the clock read by
  \<^verbatim>\<open>new Date().toISOString()\<close>.
\<close>

record runtime =
  fetch :: "request \<Rightarrow> js_error + fetch_response"
  JSON_parse :: "string \<Rightarrow> js_error + jsval"
  encodeURIComponent :: "string \<Rightarrow> js_error + string"
  now_iso :: string

datatype response = Response (code: int) (json: jsval)

text \<open>A handler's outcome: the outbound calls it made, in order, and what it answered.\<close>

type_synonym outcome = "request list \<times> response"

text \<open>\<^verbatim>\<open>try { return JSON.parse(t); } catch { return { raw: t, status: r.status }; }\<close>\<close>

definition parse_or_raw :: "runtime \<Rightarrow> fetch_response \<Rightarrow> jsval" where
  "parse_or_raw rt r =
     (case JSON_parse rt (body_text r) of
        Inr v \<Rightarrow> v
      | Inl e \<Rightarrow> JObj [(''raw'', JStr (body_text r)), (''status'', JNum (status r))])"

definition do_fetch :: "runtime \<Rightarrow> request \<Rightarrow> request list \<times> (js_error + jsval)" where
  "do_fetch rt req =
     (case fetch rt req of
        Inl e \<Rightarrow> ([req], Inl e)
      | Inr r \<Rightarrow> ([req], Inr (parse_or_raw rt r)))"

definition proxyPublic :: "runtime \<Rightarrow> string \<Rightarrow> request list \<times> (js_error + jsval)" where
  "proxyPublic rt path = do_fetch rt (Get (COMPULIFE_BASE @ path))"

text \<open>
  The object spread \<^verbatim>\<open>{ ...source }\<close> onto properties already written: each own
  property of the source is assigned in order.
\<close>

fun spread :: "jsobj \<Rightarrow> jsobj \<Rightarrow> jsobj" where
  "spread [] target = target"
| "spread ((k, v) # kvs) target = spread kvs (AList.update k v target)"

text \<open>server.js: \<^verbatim>\<open>{ COMPULIFEAUTHORIZATIONID: AUTH_ID, REMOTE_IP, ...params }\<close>\<close>

definition private_payload :: "config \<Rightarrow> jsobj \<Rightarrow> jsobj" where
  "private_payload cfg params =
     spread params
       [(''COMPULIFEAUTHORIZATIONID'', JStr (AUTH_ID cfg)), (''REMOTE_IP'', JStr (REMOTE_IP cfg))]"

definition proxyPrivate :: "config \<Rightarrow> runtime \<Rightarrow> string \<Rightarrow> jsobj \<Rightarrow> request list \<times> (js_error + jsval)" where
  "proxyPrivate cfg rt path params =
     do_fetch rt (GetCompulife (COMPULIFE_BASE @ path) (private_payload cfg params))"

text \<open>The first Railway server: \<^verbatim>\<open>{ COMPULIFEAUTHORIZATIONID: AUTH_ID, ...params }\<close>\<close>

definition private_payload_v1 :: "config \<Rightarrow> jsobj \<Rightarrow> jsobj" where
  "private_payload_v1 cfg params =
     spread params [(''COMPULIFEAUTHORIZATIONID'', JStr (AUTH_ID cfg))]"

definition proxyPrivate_v1 :: "config \<Rightarrow> runtime \<Rightarrow> string \<Rightarrow> jsobj \<Rightarrow> request list \<times> (js_error + jsval)" where
  "proxyPrivate_v1 cfg rt path params =
     do_fetch rt (GetCompulife (COMPULIFE_BASE @ path) (private_payload_v1 cfg params))"

section \<open>The Action Router\<close>

text \<open>\<^verbatim>\<open>res.json(v)\<close> answers 200; the handler's \<^verbatim>\<open>catch\<close> answers 500.\<close>

definition caught :: "js_error \<Rightarrow> response" where
  "caught e = Response 500 (JObj [(''error'', JBool True), (''message'', JStr (message e))])"

definition respond :: "(js_error \<Rightarrow> response) \<Rightarrow> request list \<times> (js_error + jsval) \<Rightarrow> outcome" where
  "respond on_error r =
     (case snd r of
        Inl e \<Rightarrow> (fst r, on_error e)
      | Inr v \<Rightarrow> (fst r, Response 200 v))"

text \<open>\<^verbatim>\<open>encodeURIComponent(v)\<close> converts its argument to a string first.\<close>

definition encode :: "runtime \<Rightarrow> jsval \<Rightarrow> js_error + string" where
  "encode rt v = (case String_js v of Inl e \<Rightarrow> Inl e | Inr s \<Rightarrow> encodeURIComponent rt s)"

text \<open>\<^verbatim>\<open>a || b\<close>\<close>

definition or_else :: "jsval \<Rightarrow> jsval \<Rightarrow> jsval" where
  "or_else a b = (if truthy a then a else b)"

subsection \<open>\<^verbatim>\<open>app.post("/")\<close> of server.js\<close>

definition post_root :: "config \<Rightarrow> runtime \<Rightarrow> jsval \<Rightarrow> outcome" where
  "post_root cfg rt req_body =
     (let body = fields_of req_body;
          action = or_else (get body ''action'') (JStr ''ping'')
      in
      if action = JStr ''ping'' then
        ([], Response 200 (JObj [(''status'', JStr ''ok''), (''service'', JStr ''compulife-proxy''),
                                 (''timestamp'', JStr (now_iso rt))]))
      else if action = JStr ''get-categories'' then
        respond caught (proxyPublic rt ''/CategoryList'')
      else if action = JStr ''get-companies'' then
        (case encode rt (or_else (get body ''category'') (JStr ''Life'')) of
           Inl e \<Rightarrow> ([], caught e)
         | Inr c \<Rightarrow> respond caught (proxyPublic rt (''/CompanyList/'' @ c)))
      else if action = JStr ''get-products'' then
        (if \<not> truthy (get body ''company'') then
           ([], Response 400 (JObj [(''error'', JStr ''company required'')]))
         else
           (case encode rt (get body ''company'') of
              Inl e \<Rightarrow> ([], caught e)
            | Inr c \<Rightarrow> respond caught (proxyPublic rt (''/ProductList/'' @ c))))
      else if action = JStr ''quote-sidebyside'' \<or> action = JStr ''quote-compare'' then
        (case buildCompulifeParams body of
           Inl e \<Rightarrow> ([], caught e)
         | Inr params \<Rightarrow> respond caught (proxyPrivate cfg rt ''/sidebyside'' params))
      else
        (case String_js action of
           Inl e \<Rightarrow> ([], caught e)
         | Inr a \<Rightarrow> ([], Response 400 (JObj [(''error'', JStr (''Unknown action: '' @ a))]))))"

subsection \<open>\<^verbatim>\<open>app.post("/")\<close> of the first Railway server\<close>

definition available :: "string list" where
  "available =
    [''ping'',
     ''get-states'', ''get-provinces'', ''get-logos'', ''get-companies'',
     ''get-categories'', ''get-company-products'',
     ''quote-compare'', ''quote-sidebyside'', ''quote-health'']"

definition caught_v1 :: "js_error \<Rightarrow> response" where
  "caught_v1 e =
     Response 500 (JObj [(''error'', JStr ''Internal proxy error''), (''message'', JStr (message e))])"

definition post_root_v1 :: "config \<Rightarrow> runtime \<Rightarrow> jsval \<Rightarrow> outcome" where
  "post_root_v1 cfg rt req_body =
     (let body = fields_of req_body;
          action = or_else (get body ''action'') (JStr ''ping'')
      in
      if action = JStr ''ping'' then
        ([], Response 200 (JObj [(''status'', JStr ''ok''), (''service'', JStr ''compulife-proxy''),
                                 (''timestamp'', JStr (now_iso rt)),
                                 (''auth_configured'', JBool (AUTH_ID cfg \<noteq> []))]))
      else if action = JStr ''get-states'' then
        respond caught_v1 (proxyPublic rt ''/StateList'')
      else if action = JStr ''get-provinces'' then
        respond caught_v1 (proxyPublic rt ''/ProvinceList'')
      else if action = JStr ''get-logos'' then
        (let size = or_else (get body ''size'') (JStr ''small'');
             country = or_else (get body ''country'') (JStr ''us'');
             base = (if country = JStr ''canada'' then ''/CompanyLogoListCanada'' else ''/CompanyLogoList'')
         in if size = JStr ''default'' then respond caught_v1 (proxyPublic rt base)
            else (case String_js size of
                    Inl e \<Rightarrow> ([], caught_v1 e)
                  | Inr sz \<Rightarrow> respond caught_v1 (proxyPublic rt (base @ ''/'' @ sz))))
      else if action = JStr ''get-companies'' then
        (let country = or_else (get body ''country'') (JStr ''us'')
         in respond caught_v1
              (proxyPublic rt (if country = JStr ''canada'' then ''/CompanyListCanada'' else ''/CompanyList'')))
      else if action = JStr ''get-categories'' then
        respond caught_v1 (proxyPrivate_v1 cfg rt ''/CategoryList'' [])
      else if action = JStr ''get-company-products'' then
        respond caught_v1
          (proxyPrivate_v1 cfg rt ''/CompanyProductList''
             (if truthy (get body ''COMPINC'') then [(''COMPINC'', get body ''COMPINC'')] else []))
      else if action = JStr ''quote-compare'' then
        (case buildQuoteParams body of
           Inl e \<Rightarrow> ([], caught_v1 e)
         | Inr params \<Rightarrow> respond caught_v1 (proxyPrivate_v1 cfg rt ''/request'' params))
      else if action = JStr ''quote-sidebyside'' then
        (case buildQuoteParams body of
           Inl e \<Rightarrow> ([], caught_v1 e)
         | Inr params \<Rightarrow> respond caught_v1 (proxyPrivate_v1 cfg rt ''/sidebyside'' params))
      else if action = JStr ''quote-health'' then
        (case buildHealthParams body of
           Inl e \<Rightarrow> ([], caught_v1 e)
         | Inr params \<Rightarrow> respond caught_v1 (proxyPrivate_v1 cfg rt ''/request'' params))
      else
        ([], Response 400 (JObj [(''error'', JStr ''Unknown action''), (''action'', action),
                                 (''available'', JArr (map JStr available))])))"

subsection \<open>\<^verbatim>\<open>app.post("/")\<close> of the second Railway server\<close>

text \<open>
  The hub that followed keeps the actions and the translators of the first server. Its
  \<^verbatim>\<open>proxyPrivate\<close> builds the payload with both credential fields, as that of server.js
  does, and its ping also reports the configured address.
\<close>

definition post_root_v2 :: "config \<Rightarrow> runtime \<Rightarrow> jsval \<Rightarrow> outcome" where
  "post_root_v2 cfg rt req_body =
     (let body = fields_of req_body;
          action = or_else (get body ''action'') (JStr ''ping'')
      in
      if action = JStr ''ping'' then
        ([], Response 200 (JObj [(''status'', JStr ''ok''), (''service'', JStr ''quoteit-api-hub''),
                                 (''timestamp'', JStr (now_iso rt)),
                                 (''auth_configured'', JBool (AUTH_ID cfg \<noteq> [])),
                                 (''remote_ip'', JStr (REMOTE_IP cfg))]))
      else if action = JStr ''get-states'' then
        respond caught_v1 (proxyPublic rt ''/StateList'')
      else if action = JStr ''get-provinces'' then
        respond caught_v1 (proxyPublic rt ''/ProvinceList'')
      else if action = JStr ''get-logos'' then
        (let size = or_else (get body ''size'') (JStr ''small'');
             country = or_else (get body ''country'') (JStr ''us'');
             base = (if country = JStr ''canada'' then ''/CompanyLogoListCanada'' else ''/CompanyLogoList'')
         in if size = JStr ''default'' then respond caught_v1 (proxyPublic rt base)
            else (case String_js size of
                    Inl e \<Rightarrow> ([], caught_v1 e)
                  | Inr sz \<Rightarrow> respond caught_v1 (proxyPublic rt (base @ ''/'' @ sz))))
      else if action = JStr ''get-companies'' then
        (let country = or_else (get body ''country'') (JStr ''us'')
         in respond caught_v1
              (proxyPublic rt (if country = JStr ''canada'' then ''/CompanyListCanada'' else ''/CompanyList'')))
      else if action = JStr ''get-categories'' then
        respond caught_v1 (proxyPrivate cfg rt ''/CategoryList'' [])
      else if action = JStr ''get-company-products'' then
        respond caught_v1
          (proxyPrivate cfg rt ''/CompanyProductList''
             (if truthy (get body ''COMPINC'') then [(''COMPINC'', get body ''COMPINC'')] else []))
      else if action = JStr ''quote-compare'' then
        (case buildQuoteParams body of
           Inl e \<Rightarrow> ([], caught_v1 e)
         | Inr params \<Rightarrow> respond caught_v1 (proxyPrivate cfg rt ''/request'' params))
      else if action = JStr ''quote-sidebyside'' then
        (case buildQuoteParams body of
           Inl e \<Rightarrow> ([], caught_v1 e)
         | Inr params \<Rightarrow> respond caught_v1 (proxyPrivate cfg rt ''/sidebyside'' params))
      else if action = JStr ''quote-health'' then
        (case buildHealthParams body of
           Inl e \<Rightarrow> ([], caught_v1 e)
         | Inr params \<Rightarrow> respond caught_v1 (proxyPrivate cfg rt ''/request'' params))
      else
        ([], Response 400 (JObj [(''error'', JStr ''Unknown action''), (''action'', action),
                                 (''available'', JArr (map JStr available))])))"

subsection \<open>\<^verbatim>\<open>app.post("/anthropic")\<close> of server.js\<close>

text \<open>
  Reading a property of \<^verbatim>\<open>undefined\<close> or \<^verbatim>\<open>null\<close> throws a TypeError, here with the
  wording of V8.
\<close>

definition cannot_read :: "string \<Rightarrow> string \<Rightarrow> string" where
  "cannot_read what name =
     ''Cannot read properties of '' @ what @ '' (reading '' @ [CHR 0x27] @ name @ [CHR 0x27] @ '')''"

definition default_prompt :: string where
  "default_prompt = ''Extract all text from this lead card. Return JSON.''"

definition anthropic_headers :: "config \<Rightarrow> (string \<times> string) list" where
  "anthropic_headers cfg =
     [(''x-api-key'', ANTHROPIC_API_KEY cfg), (''anthropic-version'', ''2023-06-01''),
      (''Content-Type'', ''application/json'')]"

definition vision_request :: "jsobj \<Rightarrow> jsval" where
  "vision_request body =
     JObj [(''model'', JStr ''claude-sonnet-4-20250514''), (''max_tokens'', JNum 4096),
           (''messages'', JArr [JObj [(''role'', JStr ''user''),
              (''content'', JArr [
                 JObj [(''type'', JStr ''image''),
                       (''source'', JObj [(''type'', JStr ''base64''),
                                          (''media_type'', or_else (get body ''media_type'') (JStr ''image/png'')),
                                          (''data'', get body ''image'')])],
                 JObj [(''type'', JStr ''text''),
                       (''text'', or_else (get body ''prompt'') (JStr default_prompt))]])]])]"

definition call_anthropic :: "config \<Rightarrow> runtime \<Rightarrow> jsval \<Rightarrow> outcome" where
  "call_anthropic cfg rt body =
     (let req = Send ''POST'' ''https://api.anthropic.com/v1/messages'' (anthropic_headers cfg) (Some body)
      in case fetch rt req of
           Inl e \<Rightarrow> ([req], caught e)
         | Inr r \<Rightarrow>
             (case JSON_parse rt (body_text r) of
                Inl e \<Rightarrow> ([req], caught e)
              | Inr v \<Rightarrow> ([req], Response 200 v)))"

definition post_anthropic :: "config \<Rightarrow> runtime \<Rightarrow> jsval \<Rightarrow> outcome" where
  "post_anthropic cfg rt req_body =
     (if ANTHROPIC_API_KEY cfg = [] then
        ([], Response 500 (JObj [(''error'', JStr ''ANTHROPIC_API_KEY not configured'')]))
      else if req_body = JUndefined then
        ([], caught (TypeError (cannot_read ''undefined'' ''model'')))
      else if req_body = JNull then
        ([], caught (TypeError (cannot_read ''null'' ''model'')))
      else
        (let body = fields_of req_body
         in if truthy (get body ''model'') \<and> truthy (get body ''messages'') then
              call_anthropic cfg rt req_body
            else if \<not> truthy (get body ''image'') then
              ([], Response 400 (JObj [(''error'', JStr ''image (base64) required'')]))
            else call_anthropic cfg rt (vision_request body)))"

subsection \<open>The CRM helper and the two routes that add the location\<close>

definition ghl_headers :: "config \<Rightarrow> (string \<times> string) list" where
  "ghl_headers cfg =
     [(''Authorization'', ''Bearer '' @ GHL_API_KEY cfg), (''Content-Type'', ''application/json''),
      (''Version'', ''2021-07-28'')]"

definition ok :: "fetch_response \<Rightarrow> bool" where
  "ok r = (200 \<le> status r \<and> status r \<le> 299)"

text \<open>
  \<^verbatim>\<open>ghlFetch(method, path, body)\<close>. On a status outside 200..299 it reads
  \<^verbatim>\<open>data.message\<close>, which throws when the downstream body was the JSON text \<^verbatim>\<open>null\<close>.
\<close>

definition ghlFetch :: "config \<Rightarrow> runtime \<Rightarrow> string \<Rightarrow> string \<Rightarrow> jsval \<Rightarrow> request list \<times> (js_error + jsval)" where
  "ghlFetch cfg rt method path body =
     (let req = Send method (GHL_BASE @ path) (ghl_headers cfg)
                  (if truthy body \<and> (method = ''POST'' \<or> method = ''PUT'') then Some body else None)
      in case fetch rt req of
           Inl e \<Rightarrow> ([req], Inl e)
         | Inr r \<Rightarrow>
             (let data = (case JSON_parse rt (body_text r) of
                            Inr v \<Rightarrow> v
                          | Inl e \<Rightarrow> JObj [(''raw'', JStr (body_text r))])
              in if \<not> ok r then
                   (if data = JNull then ([req], Inl (TypeError (cannot_read ''null'' ''message'')))
                    else ([req], Inr (JObj
                      [(''error'', JBool True), (''status'', JNum (status r)),
                       (''message'', or_else (get (fields_of data) ''message'')
                                      (or_else (get (fields_of data) ''msg'')
                                         (JStr (take 200 (body_text r))))),
                       (''data'', data)])))
                 else ([req], Inr data)))"

text \<open>
  The own enumerable properties that \<^verbatim>\<open>{ ...req.body }\<close> copies: an object's, an array's
  elements under their indices, a string's characters under theirs, none otherwise.
\<close>

fun own_properties :: "jsval \<Rightarrow> jsobj" where
  "own_properties (JObj kvs) = kvs"
| "own_properties (JArr xs) = zip (map (\<lambda>i. Number_toString (int i)) [0..<length xs]) xs"
| "own_properties (JStr s) =
     zip (map (\<lambda>i. Number_toString (int i)) [0..<length s]) (map (\<lambda>c. JStr [c]) s)"
| "own_properties v = []"

text \<open>\<^verbatim>\<open>{ ...req.body, locationId: GHL_LOCATION_ID }\<close>\<close>

definition with_location :: "config \<Rightarrow> jsval \<Rightarrow> jsobj" where
  "with_location cfg req_body =
     AList.update ''locationId'' (JStr (GHL_LOCATION_ID cfg)) (spread (own_properties req_body) [])"

definition post_ghl_contacts :: "config \<Rightarrow> runtime \<Rightarrow> jsval \<Rightarrow> outcome" where
  "post_ghl_contacts cfg rt req_body =
     respond caught (ghlFetch cfg rt ''POST'' ''/contacts/'' (JObj (with_location cfg req_body)))"

definition post_ghl_opportunities :: "config \<Rightarrow> runtime \<Rightarrow> jsval \<Rightarrow> outcome" where
  "post_ghl_opportunities cfg rt req_body =
     respond caught (ghlFetch cfg rt ''POST'' ''/opportunities/'' (JObj (with_location cfg req_body)))"


subsection \<open>The storage, Drive and OCR routes of server.js\<close>

text \<open>
  Each of these handlers opens with the test of its credential and returns at once when it
  is empty. What follows the test (uploads, token refresh, OCR) is not modelled: it is the
  parameter \<open>continue\<close>, so what is proved of these handlers holds whatever the rest does.
\<close>

definition not_configured :: "string \<Rightarrow> response" where
  "not_configured what =
     Response 500 (JObj [(''error'', JBool True), (''message'', JStr (what @ '' not configured''))])"

definition post_supabase_upload :: "config \<Rightarrow> (jsval \<Rightarrow> outcome) \<Rightarrow> jsval \<Rightarrow> outcome" where
  "post_supabase_upload cfg continue req_body =
     (if SUPABASE_SERVICE_KEY cfg = [] then ([], not_configured ''SUPABASE_SERVICE_KEY'')
      else continue req_body)"

definition get_supabase_signed_url :: "config \<Rightarrow> (jsval \<Rightarrow> outcome) \<Rightarrow> jsval \<Rightarrow> outcome" where
  "get_supabase_signed_url cfg continue req_query =
     (if SUPABASE_SERVICE_KEY cfg = [] then ([], not_configured ''SUPABASE_SERVICE_KEY'')
      else continue req_query)"

definition post_drive_upload :: "config \<Rightarrow> (jsval \<Rightarrow> outcome) \<Rightarrow> jsval \<Rightarrow> outcome" where
  "post_drive_upload cfg continue req_body =
     (if GOOGLE_CLIENT_ID cfg = [] \<or> GOOGLE_CLIENT_SECRET cfg = [] \<or> GOOGLE_REFRESH_TOKEN cfg = []
      then ([], not_configured ''Google Drive'')
      else continue req_body)"

definition post_vision_ocr :: "config \<Rightarrow> (jsval \<Rightarrow> outcome) \<Rightarrow> jsval \<Rightarrow> outcome" where
  "post_vision_ocr cfg continue req_body =
     (if GCP_VISION_API_KEY cfg = [] then ([], not_configured ''GCP_VISION_API_KEY'')
      else continue req_body)"

section \<open>The request of the README\<close>

text \<open>The quote request that the README's API reference gives.\<close>

definition readme_quote :: jsobj where
  "readme_quote =
    [(''action'', JStr ''quote-compare''), (''State'', JStr ''MS''), (''BirthMonth'', JStr ''6''),
     (''Birthday'', JStr ''15''), (''BirthYear'', JStr ''1967''), (''Sex'', JStr ''M''),
     (''Smoker'', JStr ''N''), (''Health'', JStr ''PP''), (''NewCategory'', JStr ''5''),
     (''FaceAmount'', JStr ''250000''), (''ModeUsed'', JStr ''M'')]"

definition readme_fields :: jsobj where
  "readme_fields =
    [(''State'', JStr ''MS''), (''BirthMonth'', JStr ''6''),
     (''Birthday'', JStr ''15''), (''BirthYear'', JStr ''1967''), (''Sex'', JStr ''M''),
     (''Smoker'', JStr ''N''), (''Health'', JStr ''PP''), (''NewCategory'', JStr ''5''),
     (''FaceAmount'', JStr ''250000''), (''ModeUsed'', JStr ''M'')]"

text \<open>The three entries that \<open>buildQuoteParams\<close> adds to it.\<close>

definition readme_defaults :: jsobj where
  "readme_defaults =
    [(''CompRating'', JStr ''4''), (''SortOverride1'', JStr ''A''), (''LANGUAGE'', JStr ''E'')]"

text \<open>The same request from a client that also sends the two credential names.\<close>

definition forged_quote :: jsobj where
  "forged_quote =
     readme_quote @ [(''COMPULIFEAUTHORIZATIONID'', JStr ''0000''), (''REMOTE_IP'', JStr ''10.0.0.1'')]"

text \<open>
  Deployments for the examples: the authorization id of the README in the environment and
  nothing else, or an environment with nothing set at all; and a platform whose network
  answers a plain GET with the JSON text \<^verbatim>\<open>[]\<close>, a private Compulife call with status
  403 and a text that is not JSON, and fails on every other call.
\<close>

definition readme_env :: "string \<rightharpoonup> string" where
  "readme_env = map_of [(''COMPULIFE_AUTH_ID'', ''6c1B02Df8'')]"

definition bare_env :: "string \<rightharpoonup> string" where
  "bare_env = map_of []"

definition sample_runtime :: runtime where
  "sample_runtime =
     \<lparr> fetch = (\<lambda>req. case req of
                   Get url \<Rightarrow> Inr \<lparr> status = 200, body_text = ''[]'' \<rparr>
                 | GetCompulife prefix payload \<Rightarrow> Inr \<lparr> status = 403, body_text = ''Access denied'' \<rparr>
                 | Send method url headers body \<Rightarrow> Inl (NetworkError ''fetch failed'')),
       JSON_parse = (\<lambda>t. if t = ''[]'' then Inr (JArr []) else Inl (SyntaxError ''Unexpected token'')),
       encodeURIComponent = Inr,
       now_iso = ''2026-02-24T00:00:00.000Z'' \<rparr>"

section \<open>Properties of the translators\<close>

lemma copy_fields_lookup:
  "copy_fields body ks p0 = Inr p \<Longrightarrow>
   map_of p k =
     (if k \<in> set ks \<and> get body k \<noteq> JUndefined
      then (case String_js (get body k) of Inl e \<Rightarrow> None | Inr s \<Rightarrow> Some (JStr s))
      else map_of p0 k)"
proof (induction ks arbitrary: p0)
  case Nil
  then show ?case by simp
next
  case (Cons a ks)
  show ?case
  proof (cases "get body a = JUndefined")
    case True
    with Cons.prems have "copy_fields body ks p0 = Inr p"
      by simp
    from Cons.IH [OF this] True show ?thesis by auto
  next
    case False
    with Cons.prems obtain s where s: "String_js (get body a) = Inr s"
      and rest: "copy_fields body ks (AList.update a (JStr s) p0) = Inr p"
      by (auto split: sum.splits)
    from Cons.IH [OF rest] s False show ?thesis
      by (auto simp: update_conv')
  qed
qed

lemma copy_fields_defined:
  "copy_fields body ks p0 = Inr p \<Longrightarrow> k \<in> set ks \<Longrightarrow> \<exists>s. String_js (get body k) = Inr s"
proof (induction ks arbitrary: p0)
  case Nil
  then show ?case by simp
next
  case (Cons a ks)
  then show ?case
    by (cases "get body a = JUndefined") (auto split: sum.splits)
qed

lemma copy_fields_Inl:
  "copy_fields body ks p0 = Inl e \<Longrightarrow> \<exists>k \<in> set ks. String_js (get body k) = Inl e"
proof (induction ks arbitrary: p0)
  case Nil
  then show ?case by simp
next
  case (Cons a ks)
  then show ?case
    by (cases "get body a = JUndefined") (auto split: sum.splits)
qed

lemma copy_fields_total:
  "\<forall>k \<in> set ks. \<exists>s. String_js (get body k) = Inr s \<Longrightarrow> \<exists>p. copy_fields body ks p0 = Inr p"
proof (induction ks arbitrary: p0)
  case Nil
  then show ?case by simp
next
  case (Cons a ks)
  then show ?case
    by (cases "get body a = JUndefined") (auto split: sum.splits)
qed

lemma copy_fields_distinct:
  "copy_fields body ks p0 = Inr p \<Longrightarrow> distinct (map fst p0) \<Longrightarrow> distinct (map fst p)"
proof (induction ks arbitrary: p0)
  case Nil
  then show ?case by simp
next
  case (Cons a ks)
  then show ?case
    by (cases "get body a = JUndefined") (auto simp: distinct_update split: sum.splits)
qed

lemma update_append_fresh:
  "k \<notin> fst ` set p0 \<Longrightarrow> AList.update k v (p0 @ ex) = p0 @ AList.update k v ex"
  by (induction p0) auto

lemma copy_fields_append:
  "\<forall>k \<in> set ks. k \<notin> fst ` set p0 \<Longrightarrow> copy_fields body ks (p0 @ ex) = Inr p \<Longrightarrow>
   \<exists>ex'. p = p0 @ ex'"
proof (induction ks arbitrary: ex)
  case Nil
  then show ?case by auto
next
  case (Cons a ks)
  then show ?case
    by (cases "get body a = JUndefined") (auto simp: update_append_fresh split: sum.splits)
qed

lemma keys_map_of: "fst ` set p = {k. map_of p k \<noteq> None}"
  using dom_map_of_conv_image_fst [of p] by (auto simp: dom_def)

lemma get_map_of: "get p k = (case map_of p k of None \<Rightarrow> JUndefined | Some v \<Rightarrow> v)"
  by (simp add: get_def)

lemma buildCompulifeParams_lookup:
  "buildCompulifeParams body = Inr p \<Longrightarrow>
   map_of p k =
     (if k \<in> set compulife_fields \<and> get body k \<noteq> JUndefined
      then (case String_js (get body k) of Inl e \<Rightarrow> None | Inr s \<Rightarrow> Some (JStr s))
      else None)"
  unfolding buildCompulifeParams_def using copy_fields_lookup [of body compulife_fields "[]" p k]
  by simp

lemma buildCompulifeParams_defined:
  "buildCompulifeParams body = Inr p \<Longrightarrow> k \<in> set compulife_fields \<Longrightarrow>
   \<exists>s. String_js (get body k) = Inr s"
  unfolding buildCompulifeParams_def by (rule copy_fields_defined)

lemma buildCompulifeParams_keys:
  assumes "buildCompulifeParams body = Inr p"
  shows "fst ` set p = {k \<in> set compulife_fields. get body k \<noteq> JUndefined}"
proof -
  have "map_of p k \<noteq> None \<longleftrightarrow> k \<in> set compulife_fields \<and> get body k \<noteq> JUndefined" for k
    using buildCompulifeParams_lookup [OF assms, of k] buildCompulifeParams_defined [OF assms, of k]
    by auto
  then show ?thesis by (simp add: keys_map_of)
qed

lemma buildCompulifeParams_distinct:
  "buildCompulifeParams body = Inr p \<Longrightarrow> distinct (map fst p)"
  unfolding buildCompulifeParams_def using copy_fields_distinct [of body compulife_fields "[]" p]
  by simp

lemma buildCompulifeParams_total:
  "(\<exists>p. buildCompulifeParams body = Inr p) \<longleftrightarrow>
   (\<forall>k \<in> set compulife_fields. \<exists>s. String_js (get body k) = Inr s)"
  unfolding buildCompulifeParams_def
  using copy_fields_total [of compulife_fields body "[]"] copy_fields_defined [of body compulife_fields "[]"]
  by blast

lemma map_of_default_if_falsy:
  "map_of (default_if_falsy k d p) k' =
     (if k' = k \<and> \<not> truthy (get p k) then Some (JStr d) else map_of p k')"
  by (simp add: default_if_falsy_def update_conv')

lemma distinct_default_if_falsy:
  "distinct (map fst p) \<Longrightarrow> distinct (map fst (default_if_falsy k d p))"
  by (simp add: default_if_falsy_def distinct_update)

lemma get_default_if_falsy:
  "get (default_if_falsy k d p) k' = (if k' = k \<and> \<not> truthy (get p k) then JStr d else get p k')"
  by (simp add: get_map_of map_of_default_if_falsy)

text \<open>What the two loops of buildQuoteParams leave, before the defaults.\<close>

lemma quote_copied:
  assumes "copy_fields body required [] = Inr p1" and "copy_fields body optional p1 = Inr p2"
  shows "map_of p2 k =
     (if k \<in> set (required @ optional) \<and> get body k \<noteq> JUndefined
      then (case String_js (get body k) of Inl e \<Rightarrow> None | Inr s \<Rightarrow> Some (JStr s))
      else None)"
  using copy_fields_lookup [OF assms(1), of k] copy_fields_lookup [OF assms(2), of k]
  by auto

lemma buildQuoteParams_cases:
  assumes "buildQuoteParams body = Inr q"
  obtains p1 p2 where "copy_fields body required [] = Inr p1"
    and "copy_fields body optional p1 = Inr p2"
    and "q = default_if_falsy ''LANGUAGE'' ''E''
               (default_if_falsy ''SortOverride1'' ''A''
                 (default_if_falsy ''CompRating'' ''4'' p2))"
  using assms unfolding buildQuoteParams_def by (auto split: sum.splits)

lemma default_keys_whitelisted:
  "''CompRating'' \<in> set (required @ optional)" "''SortOverride1'' \<in> set (required @ optional)"
  "''LANGUAGE'' \<in> set (required @ optional)"
  by (simp_all add: required_def optional_def)

lemma buildQuoteParams_defined:
  assumes "buildQuoteParams body = Inr q" and "k \<in> set (required @ optional)"
  shows "\<exists>s. String_js (get body k) = Inr s"
proof -
  from assms(1) obtain p1 p2 where "copy_fields body required [] = Inr p1"
    and "copy_fields body optional p1 = Inr p2"
    by (rule buildQuoteParams_cases)
  with assms(2) show ?thesis
    using copy_fields_defined [of body required "[]" p1 k] copy_fields_defined [of body optional p1 p2 k]
    by auto
qed

lemma buildQuoteParams_lookup:
  assumes "buildQuoteParams body = Inr q"
  shows "map_of q k =
     (if k \<in> set (required @ optional) \<and> get body k \<noteq> JUndefined \<and> String_js (get body k) \<noteq> Inr []
      then (case String_js (get body k) of Inl e \<Rightarrow> None | Inr s \<Rightarrow> Some (JStr s))
      else if k = ''CompRating'' then Some (JStr ''4'')
      else if k = ''SortOverride1'' then Some (JStr ''A'')
      else if k = ''LANGUAGE'' then Some (JStr ''E'')
      else if k \<in> set (required @ optional) \<and> get body k \<noteq> JUndefined then Some (JStr [])
      else None)"
proof -
  from assms obtain p1 p2 where c1: "copy_fields body required [] = Inr p1"
    and c2: "copy_fields body optional p1 = Inr p2"
    and q: "q = default_if_falsy ''LANGUAGE'' ''E''
               (default_if_falsy ''SortOverride1'' ''A''
                 (default_if_falsy ''CompRating'' ''4'' p2))"
    by (rule buildQuoteParams_cases)
  note look = quote_copied [OF c1 c2]
  have str: "\<exists>s. String_js (get body k') = Inr s" if "k' \<in> set (required @ optional)" for k'
    using buildQuoteParams_defined [OF assms that] .
  have falsy: "\<not> truthy (get p2 k') \<longleftrightarrow>
      \<not> (k' \<in> set (required @ optional) \<and> get body k' \<noteq> JUndefined \<and> String_js (get body k') \<noteq> Inr [])" for k'
    using str [of k'] by (auto simp: get_map_of look [of k'])
  show ?thesis
    using str [of k]
    by (auto simp: q map_of_default_if_falsy get_default_if_falsy falsy look [of k] default_keys_whitelisted)
qed

lemma buildQuoteParams_distinct:
  assumes "buildQuoteParams body = Inr q"
  shows "distinct (map fst q)"
proof -
  from assms obtain p1 p2 where c1: "copy_fields body required [] = Inr p1"
    and c2: "copy_fields body optional p1 = Inr p2"
    and q: "q = default_if_falsy ''LANGUAGE'' ''E''
               (default_if_falsy ''SortOverride1'' ''A''
                 (default_if_falsy ''CompRating'' ''4'' p2))"
    by (rule buildQuoteParams_cases)
  from copy_fields_distinct [OF c1] have "distinct (map fst p1)" by simp
  with copy_fields_distinct [OF c2] have "distinct (map fst p2)" by simp
  then show ?thesis by (simp add: q distinct_default_if_falsy)
qed

lemma buildQuoteParams_total:
  "(\<exists>q. buildQuoteParams body = Inr q) \<longleftrightarrow>
   (\<forall>k \<in> set (required @ optional). \<exists>s. String_js (get body k) = Inr s)"
proof
  assume "\<exists>q. buildQuoteParams body = Inr q"
  then show "\<forall>k \<in> set (required @ optional). \<exists>s. String_js (get body k) = Inr s"
    using buildQuoteParams_defined by blast
next
  assume a: "\<forall>k \<in> set (required @ optional). \<exists>s. String_js (get body k) = Inr s"
  then obtain p1 where c1: "copy_fields body required [] = Inr p1"
    using copy_fields_total [of required body "[]"] by auto
  from a obtain p2 where c2: "copy_fields body optional p1 = Inr p2"
    using copy_fields_total [of optional body p1] by auto
  show "\<exists>q. buildQuoteParams body = Inr q"
    by (simp add: buildQuoteParams_def c1 c2)
qed

lemma health_fresh: "list_all (\<lambda>k. k \<notin> set (required @ optional)) healthFields"
  by code_simp

lemma health_disjoint: "set healthFields \<inter> set (required @ optional) = {}"
  using health_fresh by (auto simp: list_all_iff)

lemma buildQuoteParams_keys_whitelisted:
  assumes "buildQuoteParams body = Inr q"
  shows "fst ` set q \<subseteq> set (required @ optional)"
proof
  fix k assume "k \<in> fst ` set q"
  then have "map_of q k \<noteq> None" by (simp add: keys_map_of)
  then show "k \<in> set (required @ optional)"
    using buildQuoteParams_lookup [OF assms, of k] default_keys_whitelisted
    by (auto split: if_splits)
qed

lemma buildHealthParams_append:
  assumes b: "buildQuoteParams body = Inr base" and h: "buildHealthParams body = Inr h"
  shows "\<exists>ext. h = base @ ext \<and> fst ` set ext \<subseteq> set healthFields"
proof -
  from b h have c: "copy_fields body healthFields base = Inr h"
    by (simp add: buildHealthParams_def)
  have fresh: "\<forall>k \<in> set healthFields. k \<notin> fst ` set base"
    using buildQuoteParams_keys_whitelisted [OF b] health_disjoint by auto
  from copy_fields_append [OF fresh, of body "[]" h] c obtain ext where ext: "h = base @ ext"
    by auto
  have dh: "distinct (map fst h)"
    using copy_fields_distinct [OF c] buildQuoteParams_distinct [OF b] by simp
  have "k \<in> set healthFields" if k: "k \<in> fst ` set ext" for k
  proof (rule ccontr)
    assume n: "k \<notin> set healthFields"
    from k dh ext have nb: "k \<notin> fst ` set base" by auto
    from k ext have "k \<in> fst ` set h" by auto
    then have "map_of h k \<noteq> None" by (simp add: keys_map_of)
    moreover from nb have "map_of base k = None" by (simp add: keys_map_of)
    ultimately show False
      using copy_fields_lookup [OF c, of k] n by simp
  qed
  with ext show ?thesis by auto
qed

lemma buildHealthParams_keeps:
  assumes b: "buildQuoteParams body = Inr base" and h: "buildHealthParams body = Inr h"
    and v: "map_of base k = Some v"
  shows "map_of h k = Some v"
proof -
  from b h have c: "copy_fields body healthFields base = Inr h"
    by (simp add: buildHealthParams_def)
  from v have "k \<in> fst ` set base" by (simp add: keys_map_of)
  with buildQuoteParams_keys_whitelisted [OF b] health_disjoint have "k \<notin> set healthFields"
    by auto
  with copy_fields_lookup [OF c, of k] v show ?thesis by simp
qed

lemma buildHealthParams_total:
  assumes b: "buildQuoteParams body = Inr base"
  shows "(\<exists>h. buildHealthParams body = Inr h) \<longleftrightarrow>
         (\<forall>k \<in> set healthFields. \<exists>s. String_js (get body k) = Inr s)"
  using copy_fields_total [of healthFields body base] copy_fields_defined [of body healthFields base]
  by (auto simp: buildHealthParams_def b)

lemma buildQuoteParams_outside:
  assumes b: "buildQuoteParams body = Inr q" and k: "k \<notin> set (required @ optional)"
  shows "map_of q k = None"
proof -
  from k default_keys_whitelisted
  have "k \<noteq> ''CompRating''" "k \<noteq> ''SortOverride1''" "k \<noteq> ''LANGUAGE''" by auto
  with buildQuoteParams_lookup [OF b, of k] k show ?thesis by simp
qed

lemma buildQuoteParams_nonempty:
  assumes b: "buildQuoteParams body = Inr q" and k: "k \<in> set (required @ optional)"
    and d: "get body k \<noteq> JUndefined" and s: "String_js (get body k) = Inr s" and n: "s \<noteq> []"
  shows "map_of q k = Some (JStr s)"
  using buildQuoteParams_lookup [OF b, of k] k d s n by simp

lemma buildQuoteParams_empty:
  assumes b: "buildQuoteParams body = Inr q" and k: "k \<in> set (required @ optional)"
    and d: "get body k \<noteq> JUndefined" and s: "String_js (get body k) = Inr []"
  shows "map_of q k = Some (JStr (if k = ''CompRating'' then ''4''
                                  else if k = ''SortOverride1'' then ''A''
                                  else if k = ''LANGUAGE'' then ''E'' else []))"
  using buildQuoteParams_lookup [OF b, of k] k d s by simp

lemma buildQuoteParams_absent:
  assumes b: "buildQuoteParams body = Inr q" and d: "get body k = JUndefined"
  shows "map_of q k = (if k = ''CompRating'' then Some (JStr ''4'')
                       else if k = ''SortOverride1'' then Some (JStr ''A'')
                       else if k = ''LANGUAGE'' then Some (JStr ''E'') else None)"
  using buildQuoteParams_lookup [OF b, of k] d by simp

lemma buildQuoteParams_present:
  assumes b: "buildQuoteParams body = Inr q"
  shows "map_of q k \<noteq> None \<longleftrightarrow>
        k \<in> set (required @ optional) \<and> get body k \<noteq> JUndefined \<or>
        k = ''CompRating'' \<or> k = ''SortOverride1'' \<or> k = ''LANGUAGE''"
proof (cases "k \<in> set (required @ optional)")
  case False
  with buildQuoteParams_outside [OF b False] default_keys_whitelisted show ?thesis by auto
next
  case True
  from buildQuoteParams_defined [OF b True] obtain s where s: "String_js (get body k) = Inr s" ..
  show ?thesis
  proof (cases "get body k = JUndefined")
    case True
    with buildQuoteParams_absent [OF b True] show ?thesis by simp
  next
    case False
    show ?thesis
    proof (cases "s = []")
      case True
      with buildQuoteParams_empty [OF b \<open>k \<in> set (required @ optional)\<close> False] s False
      show ?thesis using \<open>k \<in> set (required @ optional)\<close> by simp
    next
      case n: False
      with buildQuoteParams_nonempty [OF b \<open>k \<in> set (required @ optional)\<close> False s] False
      show ?thesis using \<open>k \<in> set (required @ optional)\<close> by simp
    qed
  qed
qed

lemma buildQuoteParams_keys:
  assumes b: "buildQuoteParams body = Inr q"
  shows "fst ` set q = {k \<in> set (required @ optional). get body k \<noteq> JUndefined}
                     \<union> {''CompRating'', ''SortOverride1'', ''LANGUAGE''}"
proof -
  have "fst ` set q = {k. map_of q k \<noteq> None}" by (rule keys_map_of)
  also have "\<dots> = {k. k \<in> set (required @ optional) \<and> get body k \<noteq> JUndefined \<or>
        k = ''CompRating'' \<or> k = ''SortOverride1'' \<or> k = ''LANGUAGE''}"
    using buildQuoteParams_present [OF b] by presburger
  also have "\<dots> = {k \<in> set (required @ optional). get body k \<noteq> JUndefined}
                     \<union> {''CompRating'', ''SortOverride1'', ''LANGUAGE''}"
    by blast
  finally show ?thesis .
qed

lemma buildQuoteParams_value:
  assumes b: "buildQuoteParams body = Inr q" and k: "k \<in> set (required @ optional)"
    and d: "get body k \<noteq> JUndefined"
  shows "\<exists>s. String_js (get body k) = Inr s \<and>
              map_of q k = Some (JStr (if s = [] \<and> k = ''CompRating'' then ''4''
                                       else if s = [] \<and> k = ''SortOverride1'' then ''A''
                                       else if s = [] \<and> k = ''LANGUAGE'' then ''E''
                                       else s))"
proof -
  from buildQuoteParams_defined [OF b k] obtain s where s: "String_js (get body k) = Inr s" ..
  show ?thesis
  proof (cases "s = []")
    case True
    with buildQuoteParams_empty [OF b k d] s show ?thesis by simp
  next
    case False
    with buildQuoteParams_nonempty [OF b k d s] s show ?thesis by simp
  qed
qed

section \<open>Properties of the dispatchers and the router\<close>

lemma map_of_spread_fresh:
  "k \<notin> fst ` set kvs \<Longrightarrow> map_of (spread kvs target) k = map_of target k"
  by (induction kvs arbitrary: target) (auto simp: update_conv')

lemma fst_do_fetch: "fst (do_fetch rt req) = [req]"
  by (simp add: do_fetch_def split: sum.splits)

lemma fst_respond: "fst (respond on_error r) = fst r"
  by (simp add: respond_def split: sum.splits)

lemma calls_proxyPublic: "fst (respond on_error (proxyPublic rt path)) = [Get (COMPULIFE_BASE @ path)]"
  by (simp add: fst_respond proxyPublic_def fst_do_fetch)

lemma calls_proxyPrivate:
  "fst (respond on_error (proxyPrivate cfg rt path params)) =
     [GetCompulife (COMPULIFE_BASE @ path) (private_payload cfg params)]"
  by (simp add: fst_respond proxyPrivate_def fst_do_fetch)

lemma credentials_not_whitelisted:
  "''COMPULIFEAUTHORIZATIONID'' \<notin> set compulife_fields" "''REMOTE_IP'' \<notin> set compulife_fields"
  by code_simp+

lemma private_payload_credentials:
  assumes "''COMPULIFEAUTHORIZATIONID'' \<notin> fst ` set params" and "''REMOTE_IP'' \<notin> fst ` set params"
  shows "map_of (private_payload cfg params) ''COMPULIFEAUTHORIZATIONID'' = Some (JStr (AUTH_ID cfg))"
    and "map_of (private_payload cfg params) ''REMOTE_IP'' = Some (JStr (REMOTE_IP cfg))"
  using assms by (simp_all add: private_payload_def map_of_spread_fresh)

lemma built_payload_credentials:
  assumes b: "buildCompulifeParams body = Inr params"
  shows "map_of (private_payload cfg params) ''COMPULIFEAUTHORIZATIONID'' = Some (JStr (AUTH_ID cfg)) \<and>
         map_of (private_payload cfg params) ''REMOTE_IP'' = Some (JStr (REMOTE_IP cfg))"
proof -
  from buildCompulifeParams_keys [OF b] credentials_not_whitelisted
  have "''COMPULIFEAUTHORIZATIONID'' \<notin> fst ` set params" "''REMOTE_IP'' \<notin> fst ` set params"
    by auto
  then show ?thesis by (simp add: private_payload_credentials)
qed

text \<open>The outbound calls of the server.js router, branch by branch.\<close>

lemma post_root_calls:
  "fst (post_root cfg rt req_body) = [] \<or>
   (\<exists>url. fst (post_root cfg rt req_body) = [Get url]) \<or>
   (\<exists>params. buildCompulifeParams (fields_of req_body) = Inr params \<and>
      (get (fields_of req_body) ''action'' = JStr ''quote-sidebyside'' \<or>
       get (fields_of req_body) ''action'' = JStr ''quote-compare'') \<and>
      fst (post_root cfg rt req_body) =
        [GetCompulife (COMPULIFE_BASE @ ''/sidebyside'') (private_payload cfg params)])"
  unfolding post_root_def Let_def
  by (auto simp: calls_proxyPublic calls_proxyPrivate or_else_def split: sum.splits)

lemma post_root_quote:
  assumes "get body ''action'' = JStr ''quote-sidebyside'' \<or> get body ''action'' = JStr ''quote-compare''"
    and "buildCompulifeParams body = Inr params"
  shows "post_root cfg rt (JObj body) = respond caught (proxyPrivate cfg rt ''/sidebyside'' params)"
  using assms unfolding post_root_def Let_def by (auto simp: or_else_def)

lemma falsy_values: "\<not> truthy v \<longleftrightarrow> v \<in> {JUndefined, JNull, JStr [], JBool False, JNum 0}"
  by (cases v) auto

lemma post_root_unknown:
  assumes "get (fields_of req_body) ''action'' = JStr a" and "a \<noteq> []"
    and "a \<notin> {''ping'', ''get-categories'', ''get-companies'', ''get-products'',
              ''quote-sidebyside'', ''quote-compare''}"
  shows "post_root cfg rt req_body =
           ([], Response 400 (JObj [(''error'', JStr (''Unknown action: '' @ a))]))"
  using assms by (simp add: post_root_def or_else_def)

lemma post_root_v1_unknown:
  assumes "get (fields_of req_body) ''action'' = JStr a" and "a \<noteq> []" and "a \<notin> set available"
  shows "post_root_v1 cfg rt req_body =
           ([], Response 400 (JObj [(''error'', JStr ''Unknown action''), (''action'', JStr a),
                                    (''available'', JArr (map JStr available))]))"
proof -
  from assms(3) have 1: "a \<noteq> ''ping''" "a \<noteq> ''get-states''" "a \<noteq> ''get-provinces''"
    unfolding available_def by simp_all
  from assms(3) have 2: "a \<noteq> ''get-logos''" "a \<noteq> ''get-companies''" "a \<noteq> ''get-categories''"
    unfolding available_def by simp_all
  from assms(3) have 3: "a \<noteq> ''get-company-products''" "a \<noteq> ''quote-compare''"
    unfolding available_def by simp_all
  from assms(3) have 4: "a \<noteq> ''quote-sidebyside''" "a \<noteq> ''quote-health''"
    unfolding available_def by simp_all
  from assms(2) have act: "or_else (JStr a) (JStr ''ping'') = JStr a"
    by (simp add: or_else_def)
  show ?thesis
    unfolding post_root_v1_def Let_def assms(1) act
    using 1 2 3 4 by (simp only: jsval.inject if_False)
qed

lemma post_root_v2_unknown:
  assumes "get (fields_of req_body) ''action'' = JStr a" and "a \<noteq> []" and "a \<notin> set available"
  shows "post_root_v2 cfg rt req_body =
           ([], Response 400 (JObj [(''error'', JStr ''Unknown action''), (''action'', JStr a),
                                    (''available'', JArr (map JStr available))]))"
proof -
  from assms(3) have 1: "a \<noteq> ''ping''" "a \<noteq> ''get-states''" "a \<noteq> ''get-provinces''"
    unfolding available_def by simp_all
  from assms(3) have 2: "a \<noteq> ''get-logos''" "a \<noteq> ''get-companies''" "a \<noteq> ''get-categories''"
    unfolding available_def by simp_all
  from assms(3) have 3: "a \<noteq> ''get-company-products''" "a \<noteq> ''quote-compare''"
    unfolding available_def by simp_all
  from assms(3) have 4: "a \<noteq> ''quote-sidebyside''" "a \<noteq> ''quote-health''"
    unfolding available_def by simp_all
  from assms(2) have act: "or_else (JStr a) (JStr ''ping'') = JStr a"
    by (simp add: or_else_def)
  show ?thesis
    unfolding post_root_v2_def Let_def assms(1) act
    using 1 2 3 4 by (simp only: jsval.inject if_False)
qed

lemma calls_proxyPrivate_v1:
  "fst (respond on_error (proxyPrivate_v1 cfg rt path params)) =
     [GetCompulife (COMPULIFE_BASE @ path) (private_payload_v1 cfg params)]"
  by (simp add: fst_respond proxyPrivate_v1_def fst_do_fetch)

lemma railway_quote_compare:
  assumes "get body ''action'' = JStr ''quote-compare''" and "buildQuoteParams body = Inr params"
  shows "post_root_v1 cfg rt (JObj body) = respond caught_v1 (proxyPrivate_v1 cfg rt ''/request'' params)"
    and "post_root_v2 cfg rt (JObj body) = respond caught_v1 (proxyPrivate cfg rt ''/request'' params)"
  using assms by (simp_all add: post_root_v1_def post_root_v2_def or_else_def)

lemma do_fetch_parsed:
  "fetch rt req = Inr r \<Longrightarrow> JSON_parse rt (body_text r) = Inr v \<Longrightarrow>
   do_fetch rt req = ([req], Inr v)"
  by (simp add: do_fetch_def parse_or_raw_def)

lemma do_fetch_raw:
  "fetch rt req = Inr r \<Longrightarrow> JSON_parse rt (body_text r) = Inl e \<Longrightarrow>
   do_fetch rt req = ([req], Inr (JObj [(''raw'', JStr (body_text r)), (''status'', JNum (status r))]))"
  by (simp add: do_fetch_def parse_or_raw_def)

lemma do_fetch_returns:
  "fetch rt req = Inr r \<Longrightarrow> \<exists>v. do_fetch rt req = ([req], Inr v)"
  by (simp add: do_fetch_def)

lemma calls_ghlFetch:
  "fst (ghlFetch cfg rt method path body) =
     [Send method (GHL_BASE @ path) (ghl_headers cfg)
        (if truthy body \<and> (method = ''POST'' \<or> method = ''PUT'') then Some body else None)]"
  by (simp add: ghlFetch_def Let_def split: sum.splits)

lemma calls_post_ghl:
  "fst (post_ghl_contacts cfg rt req_body) =
     [Send ''POST'' (GHL_BASE @ ''/contacts/'') (ghl_headers cfg) (Some (JObj (with_location cfg req_body)))]"
  "fst (post_ghl_opportunities cfg rt req_body) =
     [Send ''POST'' (GHL_BASE @ ''/opportunities/'') (ghl_headers cfg) (Some (JObj (with_location cfg req_body)))]"
  by (simp_all add: post_ghl_contacts_def post_ghl_opportunities_def fst_respond calls_ghlFetch)

lemma with_location_locationId:
  "map_of (with_location cfg req_body) ''locationId'' = Some (JStr (GHL_LOCATION_ID cfg))"
  by (simp add: with_location_def update_conv')

lemma spread_append:
  "distinct (map fst kvs) \<Longrightarrow> fst ` set kvs \<inter> fst ` set target = {} \<Longrightarrow>
   spread kvs target = target @ kvs"
proof (induction kvs arbitrary: target)
  case Nil
  then show ?case by simp
next
  case (Cons kv kvs)
  obtain k v where kv: "kv = (k, v)" by (cases kv)
  from Cons.prems kv have fresh: "k \<notin> fst ` set target" by auto
  then have u: "AList.update k v target = target @ [(k, v)]"
    using update_append_fresh [of k target v "[]"] by simp
  from Cons.prems kv have "distinct (map fst kvs)"
    and "fst ` set kvs \<inter> fst ` set (target @ [(k, v)]) = {}"
    by auto
  from Cons.IH [OF this] show ?case by (simp add: kv u)
qed

lemma with_location_object:
  "distinct (map fst kvs) \<Longrightarrow>
   with_location cfg (JObj kvs) = AList.update ''locationId'' (JStr (GHL_LOCATION_ID cfg)) kvs"
  by (simp add: with_location_def spread_append)

section \<open>The claims\<close>

text \<open>
  \<^bold>\<open>C1\<close> (amended). Whenever a translator builds a parameter object, its keys are
  distinct and are exactly the whitelisted names that are defined in the inbound body
  (for \<open>buildQuoteParams\<close> together with the three defaulted names), so no name outside
  the whitelist is ever a key. Each value is the string \<^verbatim>\<open>String\<close> gives for the inbound
  value; in \<open>buildQuoteParams\<close> the one exception is a value of \<^verbatim>\<open>CompRating\<close>,
  \<^verbatim>\<open>SortOverride1\<close> or \<^verbatim>\<open>LANGUAGE\<close> whose string is empty, which is replaced by that
  name's default. A translator builds its object exactly when \<^verbatim>\<open>String\<close> does not throw
  on any whitelisted value of the body.
\<close>

theorem translator_whitelist:
  "(buildCompulifeParams body = Inr p \<longrightarrow>
      distinct (map fst p) \<and>
      fst ` set p = {k \<in> set compulife_fields. get body k \<noteq> JUndefined} \<and>
      (k \<in> fst ` set p \<longrightarrow>
         (\<exists>s. String_js (get body k) = Inr s \<and> map_of p k = Some (JStr s)))) \<and>
   (buildQuoteParams body = Inr q \<longrightarrow>
      distinct (map fst q) \<and>
      fst ` set q = {k \<in> set (required @ optional). get body k \<noteq> JUndefined}
                     \<union> {''CompRating'', ''SortOverride1'', ''LANGUAGE''} \<and>
      fst ` set q \<subseteq> set (required @ optional) \<and>
      (k \<in> set (required @ optional) \<and> get body k \<noteq> JUndefined \<longrightarrow>
         (\<exists>s. String_js (get body k) = Inr s \<and>
              map_of q k = Some (JStr (if s = [] \<and> k = ''CompRating'' then ''4''
                                       else if s = [] \<and> k = ''SortOverride1'' then ''A''
                                       else if s = [] \<and> k = ''LANGUAGE'' then ''E''
                                       else s))))) \<and>
   ((\<exists>p. buildCompulifeParams body = Inr p) \<longleftrightarrow>
      (\<forall>k \<in> set compulife_fields. \<exists>s. String_js (get body k) = Inr s)) \<and>
   ((\<exists>q. buildQuoteParams body = Inr q) \<longleftrightarrow>
      (\<forall>k \<in> set (required @ optional). \<exists>s. String_js (get body k) = Inr s))"
proof -
  have 1: "distinct (map fst p) \<and>
      fst ` set p = {k \<in> set compulife_fields. get body k \<noteq> JUndefined} \<and>
      (k \<in> fst ` set p \<longrightarrow>
         (\<exists>s. String_js (get body k) = Inr s \<and> map_of p k = Some (JStr s)))"
    if b: "buildCompulifeParams body = Inr p"
  proof (intro conjI impI)
    show "distinct (map fst p)" by (rule buildCompulifeParams_distinct [OF b])
    show keys: "fst ` set p = {k \<in> set compulife_fields. get body k \<noteq> JUndefined}"
      by (rule buildCompulifeParams_keys [OF b])
    assume "k \<in> fst ` set p"
    with keys have k: "k \<in> set compulife_fields" "get body k \<noteq> JUndefined" by auto
    from buildCompulifeParams_defined [OF b k(1)] obtain s where "String_js (get body k) = Inr s" ..
    with buildCompulifeParams_lookup [OF b, of k] k
    show "\<exists>s. String_js (get body k) = Inr s \<and> map_of p k = Some (JStr s)" by simp
  qed
  have 2: "distinct (map fst q) \<and>
      fst ` set q = {k \<in> set (required @ optional). get body k \<noteq> JUndefined}
                     \<union> {''CompRating'', ''SortOverride1'', ''LANGUAGE''} \<and>
      fst ` set q \<subseteq> set (required @ optional) \<and>
      (k \<in> set (required @ optional) \<and> get body k \<noteq> JUndefined \<longrightarrow>
         (\<exists>s. String_js (get body k) = Inr s \<and>
              map_of q k = Some (JStr (if s = [] \<and> k = ''CompRating'' then ''4''
                                       else if s = [] \<and> k = ''SortOverride1'' then ''A''
                                       else if s = [] \<and> k = ''LANGUAGE'' then ''E''
                                       else s))))"
    if b: "buildQuoteParams body = Inr q"
    using buildQuoteParams_distinct [OF b] buildQuoteParams_keys [OF b]
      buildQuoteParams_keys_whitelisted [OF b] buildQuoteParams_value [OF b, of k]
    by blast
  from 1 2 buildCompulifeParams_total [of body] buildQuoteParams_total [of body]
  show ?thesis by blast
qed

theorem translator_whitelist_witness:
  "buildCompulifeParams readme_quote = Inr readme_fields \<and>
   ''State'' \<in> fst ` set readme_fields \<and> ''action'' \<notin> fst ` set readme_fields \<and>
   fst ` set readme_fields = {k \<in> set compulife_fields. get readme_quote k \<noteq> JUndefined} \<and>
   (\<exists>s. String_js (get readme_quote ''State'') = Inr s \<and> map_of readme_fields ''State'' = Some (JStr s)) \<and>
   buildQuoteParams [(''CompRating'', JArr []), (''State'', JNum 28), (''token'', JStr ''x'')] =
     Inr [(''State'', JStr ''28''), (''CompRating'', JStr ''4''),
          (''SortOverride1'', JStr ''A''), (''LANGUAGE'', JStr ''E'')] \<and>
   fst ` set [(''State'', JStr ''28''), (''CompRating'', JStr ''4''),
              (''SortOverride1'', JStr ''A''), (''LANGUAGE'', JStr ''E'')] \<subseteq> set (required @ optional)"
proof -
  have b: "buildCompulifeParams readme_quote = Inr readme_fields" by code_simp
  have k: "''State'' \<in> fst ` set readme_fields" by (simp add: readme_fields_def)
  have n: "''action'' \<notin> fst ` set readme_fields" by (simp add: readme_fields_def)
  note t = translator_whitelist [of readme_quote readme_fields "''State''", THEN conjunct1, rule_format, OF b]
  from t have 1: "fst ` set readme_fields = {k \<in> set compulife_fields. get readme_quote k \<noteq> JUndefined}"
    by (rule conjunct2 [THEN conjunct1])
  from t k have 2: "\<exists>s. String_js (get readme_quote ''State'') = Inr s \<and> map_of readme_fields ''State'' = Some (JStr s)"
    by (elim conjE impE) assumption+
  have q: "buildQuoteParams [(''CompRating'', JArr []), (''State'', JNum 28), (''token'', JStr ''x'')] =
     Inr [(''State'', JStr ''28''), (''CompRating'', JStr ''4''),
          (''SortOverride1'', JStr ''A''), (''LANGUAGE'', JStr ''E'')]"
    by code_simp
  note u = translator_whitelist [of "[(''CompRating'', JArr []), (''State'', JNum 28), (''token'', JStr ''x'')]" _ _
      "[(''State'', JStr ''28''), (''CompRating'', JStr ''4''),
          (''SortOverride1'', JStr ''A''), (''LANGUAGE'', JStr ''E'')]",
      THEN conjunct2, THEN conjunct1, rule_format, OF q]
  from u have 3: "fst ` set [(''State'', JStr ''28''), (''CompRating'', JStr ''4''),
              (''SortOverride1'', JStr ''A''), (''LANGUAGE'', JStr ''E'')] \<subseteq> set (required @ optional)"
    by (rule conjunct2 [THEN conjunct2, THEN conjunct1])
  from b k n 1 2 q 3 show ?thesis by (intro conjI)
qed

text \<open>
  As C1 is stated, a whitelisted key defined in the body carries the string of the
  inbound value. The body \<^verbatim>\<open>{CompRating: ""}\<close> has such a key, whose string is empty,
  and \<open>buildQuoteParams\<close> sends \<^verbatim>\<open>"4"\<close> under it.
\<close>

theorem quote_value_replaced_counterexample:
  "''CompRating'' \<in> set (required @ optional) \<and>
   get [(''CompRating'', JStr [])] ''CompRating'' = JStr [] \<and>
   String_js (JStr []) = Inr [] \<and>
   buildQuoteParams [(''CompRating'', JStr [])] =
     Inr [(''CompRating'', JStr ''4''), (''SortOverride1'', JStr ''A''), (''LANGUAGE'', JStr ''E'')]"
  by code_simp

text \<open>
  \<^bold>\<open>C2\<close>. Neither credential name is in the whitelist of server.js. Hence every private
  Compulife call that the router makes, for any request body, carries
  \<^verbatim>\<open>COMPULIFEAUTHORIZATIONID\<close> and \<^verbatim>\<open>REMOTE_IP\<close> with the configured values, whatever the
  body holds under those names; and a quote action whose parameters are built makes
  exactly that one call.
\<close>

theorem credentials_fixed:
  "''COMPULIFEAUTHORIZATIONID'' \<notin> set compulife_fields \<and>
   ''REMOTE_IP'' \<notin> set compulife_fields \<and>
   (GetCompulife prefix payload \<in> set (fst (post_root cfg rt req_body)) \<longrightarrow>
      map_of payload ''COMPULIFEAUTHORIZATIONID'' = Some (JStr (AUTH_ID cfg)) \<and>
      map_of payload ''REMOTE_IP'' = Some (JStr (REMOTE_IP cfg))) \<and>
   ((get body ''action'' = JStr ''quote-sidebyside'' \<or> get body ''action'' = JStr ''quote-compare'') \<and>
    buildCompulifeParams body = Inr params \<longrightarrow>
      fst (post_root cfg rt (JObj body)) =
        [GetCompulife (COMPULIFE_BASE @ ''/sidebyside'') (private_payload cfg params)] \<and>
      map_of (private_payload cfg params) ''COMPULIFEAUTHORIZATIONID'' = Some (JStr (AUTH_ID cfg)) \<and>
      map_of (private_payload cfg params) ''REMOTE_IP'' = Some (JStr (REMOTE_IP cfg)))"
proof (intro conjI impI)
  show "''COMPULIFEAUTHORIZATIONID'' \<notin> set compulife_fields" "''REMOTE_IP'' \<notin> set compulife_fields"
    by (rule credentials_not_whitelisted)+
next
  assume c: "GetCompulife prefix payload \<in> set (fst (post_root cfg rt req_body))"
  with post_root_calls [of cfg rt req_body]
  obtain params where b: "buildCompulifeParams (fields_of req_body) = Inr params"
    and p: "payload = private_payload cfg params"
    by auto
  from built_payload_credentials [OF b, of cfg] p
  show "map_of payload ''COMPULIFEAUTHORIZATIONID'' = Some (JStr (AUTH_ID cfg))"
    and "map_of payload ''REMOTE_IP'' = Some (JStr (REMOTE_IP cfg))"
    by simp_all
next
  assume a: "(get body ''action'' = JStr ''quote-sidebyside'' \<or> get body ''action'' = JStr ''quote-compare'') \<and>
    buildCompulifeParams body = Inr params"
  then have b: "buildCompulifeParams body = Inr params" ..
  from a show "fst (post_root cfg rt (JObj body)) =
        [GetCompulife (COMPULIFE_BASE @ ''/sidebyside'') (private_payload cfg params)]"
    by (simp add: post_root_quote calls_proxyPrivate)
  from built_payload_credentials [OF b, of cfg]
  show "map_of (private_payload cfg params) ''COMPULIFEAUTHORIZATIONID'' = Some (JStr (AUTH_ID cfg))"
    and "map_of (private_payload cfg params) ''REMOTE_IP'' = Some (JStr (REMOTE_IP cfg))"
    by simp_all
qed

theorem credentials_fixed_witness:
  "get forged_quote ''COMPULIFEAUTHORIZATIONID'' = JStr ''0000'' \<and>
   get forged_quote ''REMOTE_IP'' = JStr ''10.0.0.1'' \<and>
   get forged_quote ''action'' = JStr ''quote-compare'' \<and>
   buildCompulifeParams forged_quote = Inr readme_fields \<and>
   fst (post_root (load_config readme_env) sample_runtime (JObj forged_quote)) =
     [GetCompulife (COMPULIFE_BASE @ ''/sidebyside'') (private_payload (load_config readme_env) readme_fields)] \<and>
   map_of (private_payload (load_config readme_env) readme_fields) ''COMPULIFEAUTHORIZATIONID'' =
     Some (JStr (AUTH_ID (load_config readme_env))) \<and>
   map_of (private_payload (load_config readme_env) readme_fields) ''REMOTE_IP'' =
     Some (JStr (REMOTE_IP (load_config readme_env))) \<and>
   AUTH_ID (load_config readme_env) = ''6c1B02Df8'' \<and>
   REMOTE_IP (load_config readme_env) = ''162.220.232.99''"
proof -
  have g: "get forged_quote ''COMPULIFEAUTHORIZATIONID'' = JStr ''0000''"
    "get forged_quote ''REMOTE_IP'' = JStr ''10.0.0.1''"
    by code_simp+
  have a: "get forged_quote ''action'' = JStr ''quote-compare''" by code_simp
  have b: "buildCompulifeParams forged_quote = Inr readme_fields" by code_simp
  have e: "AUTH_ID (load_config readme_env) = ''6c1B02Df8''"
    "REMOTE_IP (load_config readme_env) = ''162.220.232.99''"
    by (simp_all add: load_config_def readme_env_def env_or_def)
  note t = credentials_fixed [of _ _ "load_config readme_env" sample_runtime _ forged_quote readme_fields,
      THEN conjunct2, THEN conjunct2, THEN conjunct2, rule_format, OF conjI, OF disjI2, OF a b]
  from g a b e t [THEN conjunct1] t [THEN conjunct2, THEN conjunct1] t [THEN conjunct2, THEN conjunct2]
  show ?thesis by (intro conjI)
qed

text \<open>
  \<^bold>\<open>C3\<close> (amended). In \<open>buildQuoteParams\<close> each of the three defaults (\<^verbatim>\<open>"4"\<close> for
  \<^verbatim>\<open>CompRating\<close>, \<^verbatim>\<open>"A"\<close> for \<^verbatim>\<open>SortOverride1\<close>, \<^verbatim>\<open>"E"\<close> for \<^verbatim>\<open>LANGUAGE\<close>) is
  applied exactly when the key is absent from the inbound body or its value has the empty
  string as its string form: the empty body yields all three defaults, and a present key
  whose string form is not empty yields that string unchanged. \<open>buildCompulifeParams\<close> of
  server.js stores nothing for an absent key, so it applies no default.
\<close>

theorem quote_defaults:
  "buildQuoteParams [] =
     Inr [(''CompRating'', JStr ''4''), (''SortOverride1'', JStr ''A''), (''LANGUAGE'', JStr ''E'')] \<and>
   ((k, d) \<in> {(''CompRating'', ''4''), (''SortOverride1'', ''A''), (''LANGUAGE'', ''E'')} \<and>
    buildQuoteParams body = Inr q \<longrightarrow>
      (\<exists>s. String_js (get body k) = Inr s \<and>
           map_of q k = Some (JStr (if get body k = JUndefined \<or> s = [] then d else s)))) \<and>
   (buildCompulifeParams body = Inr p \<and> get body k = JUndefined \<longrightarrow> map_of p k = None)"
proof (intro conjI impI)
  show "buildQuoteParams [] =
     Inr [(''CompRating'', JStr ''4''), (''SortOverride1'', JStr ''A''), (''LANGUAGE'', JStr ''E'')]"
    by code_simp
next
  assume a: "(k, d) \<in> {(''CompRating'', ''4''), (''SortOverride1'', ''A''), (''LANGUAGE'', ''E'')} \<and>
    buildQuoteParams body = Inr q"
  then have b: "buildQuoteParams body = Inr q" ..
  from a default_keys_whitelisted have k: "k \<in> set (required @ optional)" by auto
  from buildQuoteParams_defined [OF b k] obtain s where s: "String_js (get body k) = Inr s" ..
  have "map_of q k = Some (JStr (if get body k = JUndefined \<or> s = [] then d else s))"
  proof (cases "get body k = JUndefined")
    case True
    with buildQuoteParams_absent [OF b True] a show ?thesis by auto
  next
    case False
    show ?thesis
    proof (cases "s = []")
      case True
      with buildQuoteParams_empty [OF b k False] s a False show ?thesis by auto
    next
      case n: False
      with buildQuoteParams_nonempty [OF b k False s] False show ?thesis by simp
    qed
  qed
  with s show "\<exists>s. String_js (get body k) = Inr s \<and>
           map_of q k = Some (JStr (if get body k = JUndefined \<or> s = [] then d else s))"
    by blast
next
  assume "buildCompulifeParams body = Inr p \<and> get body k = JUndefined"
  then show "map_of p k = None"
    using buildCompulifeParams_lookup [of body p k] by simp
qed

theorem quote_defaults_witness:
  "buildQuoteParams [(''SortOverride1'', JStr ''Z'')] =
     Inr [(''SortOverride1'', JStr ''Z''), (''CompRating'', JStr ''4''), (''LANGUAGE'', JStr ''E'')] \<and>
   (\<exists>s. String_js (get [(''SortOverride1'', JStr ''Z'')] ''SortOverride1'') = Inr s \<and>
        map_of [(''SortOverride1'', JStr ''Z''), (''CompRating'', JStr ''4''), (''LANGUAGE'', JStr ''E'')]
          ''SortOverride1'' =
        Some (JStr (if get [(''SortOverride1'', JStr ''Z'')] ''SortOverride1'' = JUndefined \<or> s = []
                    then ''A'' else s))) \<and>
   buildCompulifeParams [(''SortOverride1'', JStr ''Z'')] = Inr [(''SortOverride1'', JStr ''Z'')] \<and>
   get [(''SortOverride1'', JStr ''Z'')] ''LANGUAGE'' = JUndefined \<and>
   map_of [(''SortOverride1'', JStr ''Z'')] ''LANGUAGE'' = (None :: jsval option)"
proof -
  have b: "buildQuoteParams [(''SortOverride1'', JStr ''Z'')] =
     Inr [(''SortOverride1'', JStr ''Z''), (''CompRating'', JStr ''4''), (''LANGUAGE'', JStr ''E'')]"
    by code_simp
  have m: "(''SortOverride1'', ''A'') \<in> {(''CompRating'', ''4''), (''SortOverride1'', ''A''), (''LANGUAGE'', ''E'')}"
    by simp
  note t = quote_defaults [of "''SortOverride1''" "''A''" "[(''SortOverride1'', JStr ''Z'')]"
      "[(''SortOverride1'', JStr ''Z''), (''CompRating'', JStr ''4''), (''LANGUAGE'', JStr ''E'')]",
      THEN conjunct2, THEN conjunct1, rule_format, OF conjI, OF m b]
  have c: "buildCompulifeParams [(''SortOverride1'', JStr ''Z'')] = Inr [(''SortOverride1'', JStr ''Z'')]"
    by code_simp
  have g: "get [(''SortOverride1'', JStr ''Z'')] ''LANGUAGE'' = JUndefined"
    by (simp add: get_def)
  note u = quote_defaults [of "''LANGUAGE''" _ "[(''SortOverride1'', JStr ''Z'')]" _
      "[(''SortOverride1'', JStr ''Z'')]",
      THEN conjunct2, THEN conjunct2, rule_format, OF conjI, OF c g]
  from b t c g u show ?thesis by (intro conjI)
qed

text \<open>
  As C3 is stated, a present key keeps its value even when that is the empty string, and
  every quoting translation of the empty body carries the three defaults. With
  \<^verbatim>\<open>{SortOverride1: ""}\<close> \<open>buildQuoteParams\<close> sends \<^verbatim>\<open>"A"\<close>, and \<open>buildCompulifeParams\<close>
  of server.js turns the empty body into the empty object.
\<close>

theorem quote_default_replaces_empty_counterexample:
  "get [(''SortOverride1'', JStr [])] ''SortOverride1'' = JStr [] \<and>
   String_js (JStr []) = Inr [] \<and>
   buildQuoteParams [(''SortOverride1'', JStr [])] =
     Inr [(''SortOverride1'', JStr ''A''), (''CompRating'', JStr ''4''), (''LANGUAGE'', JStr ''E'')] \<and>
   buildCompulifeParams [] = Inr []"
  by code_simp

text \<open>
  \<^bold>\<open>C4\<close> (amended). For the README's request the router of server.js makes one call, to
  \<^verbatim>\<open>/sidebyside\<close>, whose embedded object holds the two credential fields followed by the
  ten supplied quote fields with the supplied strings: twelve keys and no others. The
  three names \<^verbatim>\<open>SortOverride1\<close>, \<^verbatim>\<open>CompRating\<close> and \<^verbatim>\<open>LANGUAGE\<close> are not among them,
  since \<open>buildCompulifeParams\<close> has no defaults. The object of fifteen keys, with the three
  defaults, is the one the second Railway server sends to \<^verbatim>\<open>/request\<close>; the first Railway
  server sends fourteen, having the authorization id as its only credential field.
\<close>

theorem readme_quote_payload:
  "fst (post_root cfg rt (JObj readme_quote)) =
     [GetCompulife (COMPULIFE_BASE @ ''/sidebyside'')
        ([(''COMPULIFEAUTHORIZATIONID'', JStr (AUTH_ID cfg)), (''REMOTE_IP'', JStr (REMOTE_IP cfg))]
         @ readme_fields)] \<and>
   map fst ([(''COMPULIFEAUTHORIZATIONID'', JStr (AUTH_ID cfg)), (''REMOTE_IP'', JStr (REMOTE_IP cfg))]
            @ readme_fields) =
     [''COMPULIFEAUTHORIZATIONID'', ''REMOTE_IP'',
      ''State'', ''BirthMonth'', ''Birthday'', ''BirthYear'', ''Sex'', ''Smoker'', ''Health'',
      ''NewCategory'', ''FaceAmount'', ''ModeUsed''] \<and>
   length ([(''COMPULIFEAUTHORIZATIONID'', JStr (AUTH_ID cfg)), (''REMOTE_IP'', JStr (REMOTE_IP cfg))]
            @ readme_fields) = 12 \<and>
   readme_fields = filter (\<lambda>kv. fst kv \<noteq> ''action'') readme_quote \<and>
   fst (post_root_v2 cfg rt (JObj readme_quote)) =
     [GetCompulife (COMPULIFE_BASE @ ''/request'')
        ([(''COMPULIFEAUTHORIZATIONID'', JStr (AUTH_ID cfg)), (''REMOTE_IP'', JStr (REMOTE_IP cfg))]
         @ readme_fields @ readme_defaults)] \<and>
   length ([(''COMPULIFEAUTHORIZATIONID'', JStr (AUTH_ID cfg)), (''REMOTE_IP'', JStr (REMOTE_IP cfg))]
            @ readme_fields @ readme_defaults) = 15 \<and>
   fst (post_root_v1 cfg rt (JObj readme_quote)) =
     [GetCompulife (COMPULIFE_BASE @ ''/request'')
        ([(''COMPULIFEAUTHORIZATIONID'', JStr (AUTH_ID cfg))] @ readme_fields @ readme_defaults)] \<and>
   length ([(''COMPULIFEAUTHORIZATIONID'', JStr (AUTH_ID cfg))] @ readme_fields @ readme_defaults) = 14"
proof -
  have a: "get readme_quote ''action'' = JStr ''quote-compare''" by code_simp
  have b: "buildCompulifeParams readme_quote = Inr readme_fields" by code_simp
  have q: "buildQuoteParams readme_quote = Inr (readme_fields @ readme_defaults)" by code_simp
  have p: "private_payload cfg readme_fields =
      [(''COMPULIFEAUTHORIZATIONID'', JStr (AUTH_ID cfg)), (''REMOTE_IP'', JStr (REMOTE_IP cfg))]
      @ readme_fields"
    by (simp add: private_payload_def readme_fields_def)
  have p2: "private_payload cfg (readme_fields @ readme_defaults) =
      [(''COMPULIFEAUTHORIZATIONID'', JStr (AUTH_ID cfg)), (''REMOTE_IP'', JStr (REMOTE_IP cfg))]
      @ readme_fields @ readme_defaults"
    by (simp add: private_payload_def readme_fields_def readme_defaults_def)
  have p1: "private_payload_v1 cfg (readme_fields @ readme_defaults) =
      [(''COMPULIFEAUTHORIZATIONID'', JStr (AUTH_ID cfg))] @ readme_fields @ readme_defaults"
    by (simp add: private_payload_v1_def readme_fields_def readme_defaults_def)
  have 1: "fst (post_root cfg rt (JObj readme_quote)) =
     [GetCompulife (COMPULIFE_BASE @ ''/sidebyside'')
        ([(''COMPULIFEAUTHORIZATIONID'', JStr (AUTH_ID cfg)), (''REMOTE_IP'', JStr (REMOTE_IP cfg))]
         @ readme_fields)]"
    using post_root_quote [OF disjI2, OF a b, of cfg rt] by (simp add: calls_proxyPrivate p)
  have 2: "map fst ([(''COMPULIFEAUTHORIZATIONID'', JStr (AUTH_ID cfg)), (''REMOTE_IP'', JStr (REMOTE_IP cfg))]
            @ readme_fields) =
     [''COMPULIFEAUTHORIZATIONID'', ''REMOTE_IP'',
      ''State'', ''BirthMonth'', ''Birthday'', ''BirthYear'', ''Sex'', ''Smoker'', ''Health'',
      ''NewCategory'', ''FaceAmount'', ''ModeUsed'']"
    by (simp add: readme_fields_def)
  have 3: "length ([(''COMPULIFEAUTHORIZATIONID'', JStr (AUTH_ID cfg)), (''REMOTE_IP'', JStr (REMOTE_IP cfg))]
            @ readme_fields) = 12"
    by (simp add: readme_fields_def)
  have 4: "readme_fields = filter (\<lambda>kv. fst kv \<noteq> ''action'') readme_quote"
    by (simp add: readme_fields_def readme_quote_def)
  have 5: "fst (post_root_v2 cfg rt (JObj readme_quote)) =
     [GetCompulife (COMPULIFE_BASE @ ''/request'')
        ([(''COMPULIFEAUTHORIZATIONID'', JStr (AUTH_ID cfg)), (''REMOTE_IP'', JStr (REMOTE_IP cfg))]
         @ readme_fields @ readme_defaults)]"
    using railway_quote_compare(2) [OF a q, of cfg rt] by (simp add: calls_proxyPrivate p2)
  have 6: "length ([(''COMPULIFEAUTHORIZATIONID'', JStr (AUTH_ID cfg)), (''REMOTE_IP'', JStr (REMOTE_IP cfg))]
            @ readme_fields @ readme_defaults) = 15"
    by (simp add: readme_fields_def readme_defaults_def)
  have 7: "fst (post_root_v1 cfg rt (JObj readme_quote)) =
     [GetCompulife (COMPULIFE_BASE @ ''/request'')
        ([(''COMPULIFEAUTHORIZATIONID'', JStr (AUTH_ID cfg))] @ readme_fields @ readme_defaults)]"
    using railway_quote_compare(1) [OF a q, of cfg rt] by (simp add: calls_proxyPrivate_v1 p1)
  have 8: "length ([(''COMPULIFEAUTHORIZATIONID'', JStr (AUTH_ID cfg))] @ readme_fields @ readme_defaults) = 14"
    by (simp add: readme_fields_def readme_defaults_def)
  from 1 2 3 4 5 6 7 8 show ?thesis by (intro conjI)
qed

theorem readme_quote_payload_witness:
  "fst (post_root (load_config readme_env) sample_runtime (JObj readme_quote)) =
     [GetCompulife (COMPULIFE_BASE @ ''/sidebyside'')
        ([(''COMPULIFEAUTHORIZATIONID'', JStr (AUTH_ID (load_config readme_env))),
          (''REMOTE_IP'', JStr (REMOTE_IP (load_config readme_env)))]
         @ readme_fields)]"
  using readme_quote_payload [of "load_config readme_env" sample_runtime]
  by (rule conjunct1)

text \<open>
  As C4 is stated the embedded object has fifteen keys, three of them defaulted. With the
  README's authorization id configured, server.js sends these twelve.
\<close>

theorem readme_quote_twelve_keys_counterexample:
  "post_root (load_config readme_env) sample_runtime (JObj readme_quote) =
     ([GetCompulife ''https://www.compulifeapi.com/api/sidebyside''
         [(''COMPULIFEAUTHORIZATIONID'', JStr ''6c1B02Df8''), (''REMOTE_IP'', JStr ''162.220.232.99''),
          (''State'', JStr ''MS''), (''BirthMonth'', JStr ''6''), (''Birthday'', JStr ''15''),
          (''BirthYear'', JStr ''1967''), (''Sex'', JStr ''M''), (''Smoker'', JStr ''N''),
          (''Health'', JStr ''PP''), (''NewCategory'', JStr ''5''), (''FaceAmount'', JStr ''250000''),
          (''ModeUsed'', JStr ''M'')]],
      Response 200 (JObj [(''raw'', JStr ''Access denied''), (''status'', JNum 403)]))"
  by code_simp

text \<open>
  \<^bold>\<open>C5\<close> (amended). When the action of the request body is a non-empty string that the
  router does not recognise, \<^verbatim>\<open>POST /\<close> answers 400 and makes no downstream call. The
  two Railway servers answer with the action string and the enumerated list of their ten
  actions; server.js answers \<^verbatim>\<open>{error: "Unknown action: <action>"}\<close>, which holds the
  action string and no list.
\<close>

theorem unknown_action_rejected:
  "get (fields_of req_body) ''action'' = JStr a \<and> a \<noteq> [] \<longrightarrow>
     (a \<notin> {''ping'', ''get-categories'', ''get-companies'', ''get-products'',
            ''quote-sidebyside'', ''quote-compare''} \<longrightarrow>
        post_root cfg rt req_body =
          ([], Response 400 (JObj [(''error'', JStr (''Unknown action: '' @ a))]))) \<and>
     (a \<notin> set available \<longrightarrow>
        post_root_v1 cfg rt req_body =
          ([], Response 400 (JObj [(''error'', JStr ''Unknown action''), (''action'', JStr a),
                                   (''available'', JArr (map JStr available))])) \<and>
        post_root_v2 cfg rt req_body =
          ([], Response 400 (JObj [(''error'', JStr ''Unknown action''), (''action'', JStr a),
                                   (''available'', JArr (map JStr available))])))"
proof (intro impI conjI)
  assume a: "get (fields_of req_body) ''action'' = JStr a \<and> a \<noteq> []"
  then have g: "get (fields_of req_body) ''action'' = JStr a" and n: "a \<noteq> []"
    by (rule conjunct1, rule conjunct2)
  {
    assume "a \<notin> {''ping'', ''get-categories'', ''get-companies'', ''get-products'',
            ''quote-sidebyside'', ''quote-compare''}"
    with g n show "post_root cfg rt req_body =
          ([], Response 400 (JObj [(''error'', JStr (''Unknown action: '' @ a))]))"
      by (rule post_root_unknown)
  next
    assume m: "a \<notin> set available"
    from g n m show "post_root_v1 cfg rt req_body =
          ([], Response 400 (JObj [(''error'', JStr ''Unknown action''), (''action'', JStr a),
                                   (''available'', JArr (map JStr available))]))"
      by (rule post_root_v1_unknown)
    from g n m show "post_root_v2 cfg rt req_body =
          ([], Response 400 (JObj [(''error'', JStr ''Unknown action''), (''action'', JStr a),
                                   (''available'', JArr (map JStr available))]))"
      by (rule post_root_v2_unknown)
  }
qed

theorem unknown_action_rejected_witness:
  "get (fields_of (JObj [(''action'', JStr ''bogus'')])) ''action'' = JStr ''bogus'' \<and>
   ''bogus'' \<notin> set available \<and>
   ''bogus'' \<notin> {''ping'', ''get-categories'', ''get-companies'', ''get-products'',
                  ''quote-sidebyside'', ''quote-compare''} \<and>
   post_root (load_config readme_env) sample_runtime (JObj [(''action'', JStr ''bogus'')]) =
     ([], Response 400 (JObj [(''error'', JStr (''Unknown action: '' @ ''bogus''))])) \<and>
   post_root_v1 (load_config readme_env) sample_runtime (JObj [(''action'', JStr ''bogus'')]) =
     ([], Response 400 (JObj [(''error'', JStr ''Unknown action''), (''action'', JStr ''bogus''),
                              (''available'', JArr (map JStr available))]))"
proof -
  have g: "get (fields_of (JObj [(''action'', JStr ''bogus'')])) ''action'' = JStr ''bogus''"
    by (simp add: get_def)
  have n: "''bogus'' \<noteq> []" by simp
  have m: "''bogus'' \<notin> set available" by (simp add: available_def)
  have m': "''bogus'' \<notin> {''ping'', ''get-categories'', ''get-companies'', ''get-products'',
                  ''quote-sidebyside'', ''quote-compare''}"
    by simp
  note t = unknown_action_rejected [of "JObj [(''action'', JStr ''bogus'')]" "''bogus''"
      "load_config readme_env" sample_runtime, rule_format, OF conjI, OF g n]
  note t1 = t [THEN conjunct1, rule_format, OF m']
  note t2 = t [THEN conjunct2, rule_format, OF m, THEN conjunct1]
  from g m m' t1 t2 show ?thesis by (intro conjI)
qed

text \<open>
  As C5 is stated, every string outside the recognised set is answered with 400 and with
  the list of valid actions. The empty string is outside the set and server.js answers it
  with the 200 of \<^verbatim>\<open>ping\<close>; and its answer to \<^verbatim>\<open>bogus\<close> holds no list.
\<close>

theorem unknown_action_counterexample:
  "post_root (load_config readme_env) sample_runtime (JObj [(''action'', JStr [])]) =
     ([], Response 200 (JObj [(''status'', JStr ''ok''), (''service'', JStr ''compulife-proxy''),
                              (''timestamp'', JStr ''2026-02-24T00:00:00.000Z'')])) \<and>
   post_root (load_config readme_env) sample_runtime (JObj [(''action'', JStr ''bogus'')]) =
     ([], Response 400 (JObj [(''error'', JStr ''Unknown action: bogus'')]))"
  by code_simp

text \<open>
  \<^bold>\<open>C6\<close>. When the downstream call of \<open>proxyPublic\<close> or \<open>proxyPrivate\<close> returns a
  response, the dispatcher returns a value and never an error: the parsed structure when
  the body text parses, which the handler then sends with status 200, and otherwise the
  object \<^verbatim>\<open>{raw, status}\<close> holding the body text as received and the downstream status.
\<close>

theorem dispatcher_parse_or_raw:
  "(fetch rt (Get (COMPULIFE_BASE @ path)) = Inr r \<longrightarrow>
      (\<exists>v. proxyPublic rt path = ([Get (COMPULIFE_BASE @ path)], Inr v)) \<and>
      (JSON_parse rt (body_text r) = Inr v \<longrightarrow>
         proxyPublic rt path = ([Get (COMPULIFE_BASE @ path)], Inr v) \<and>
         respond on_error (proxyPublic rt path) = ([Get (COMPULIFE_BASE @ path)], Response 200 v)) \<and>
      (JSON_parse rt (body_text r) = Inl e \<longrightarrow>
         proxyPublic rt path =
           ([Get (COMPULIFE_BASE @ path)],
            Inr (JObj [(''raw'', JStr (body_text r)), (''status'', JNum (status r))])))) \<and>
   (fetch rt (GetCompulife (COMPULIFE_BASE @ path) (private_payload cfg params)) = Inr r \<longrightarrow>
      (\<exists>v. proxyPrivate cfg rt path params =
             ([GetCompulife (COMPULIFE_BASE @ path) (private_payload cfg params)], Inr v)) \<and>
      (JSON_parse rt (body_text r) = Inr v \<longrightarrow>
         proxyPrivate cfg rt path params =
           ([GetCompulife (COMPULIFE_BASE @ path) (private_payload cfg params)], Inr v) \<and>
         respond on_error (proxyPrivate cfg rt path params) =
           ([GetCompulife (COMPULIFE_BASE @ path) (private_payload cfg params)], Response 200 v)) \<and>
      (JSON_parse rt (body_text r) = Inl e \<longrightarrow>
         proxyPrivate cfg rt path params =
           ([GetCompulife (COMPULIFE_BASE @ path) (private_payload cfg params)],
            Inr (JObj [(''raw'', JStr (body_text r)), (''status'', JNum (status r))]))))"
  by (simp add: proxyPublic_def proxyPrivate_def do_fetch_parsed do_fetch_raw do_fetch_returns
      respond_def)

theorem dispatcher_parse_or_raw_witness:
  "fetch sample_runtime (Get (COMPULIFE_BASE @ ''/CategoryList'')) = Inr \<lparr> status = 200, body_text = ''[]'' \<rparr> \<and>
   JSON_parse sample_runtime (body_text \<lparr> status = 200, body_text = ''[]'' \<rparr>) = Inr (JArr []) \<and>
   proxyPublic sample_runtime ''/CategoryList'' = ([Get (COMPULIFE_BASE @ ''/CategoryList'')], Inr (JArr [])) \<and>
   fetch sample_runtime
     (GetCompulife (COMPULIFE_BASE @ ''/sidebyside'') (private_payload (load_config readme_env) readme_fields)) =
     Inr \<lparr> status = 403, body_text = ''Access denied'' \<rparr> \<and>
   JSON_parse sample_runtime (body_text \<lparr> status = 403, body_text = ''Access denied'' \<rparr>) =
     Inl (SyntaxError ''Unexpected token'') \<and>
   proxyPrivate (load_config readme_env) sample_runtime ''/sidebyside'' readme_fields =
     ([GetCompulife (COMPULIFE_BASE @ ''/sidebyside'') (private_payload (load_config readme_env) readme_fields)],
      Inr (JObj [(''raw'', JStr (body_text \<lparr> status = 403, body_text = ''Access denied'' \<rparr>)),
                 (''status'', JNum (status \<lparr> status = 403, body_text = ''Access denied'' \<rparr>))]))"
proof -
  have f1: "fetch sample_runtime (Get (COMPULIFE_BASE @ ''/CategoryList'')) = Inr \<lparr> status = 200, body_text = ''[]'' \<rparr>"
    by (simp add: sample_runtime_def)
  have p1: "JSON_parse sample_runtime (body_text \<lparr> status = 200, body_text = ''[]'' \<rparr>) = Inr (JArr [])"
    by (simp add: sample_runtime_def)
  have f2: "fetch sample_runtime
     (GetCompulife (COMPULIFE_BASE @ ''/sidebyside'') (private_payload (load_config readme_env) readme_fields)) =
     Inr \<lparr> status = 403, body_text = ''Access denied'' \<rparr>"
    by (simp add: sample_runtime_def)
  have p2: "JSON_parse sample_runtime (body_text \<lparr> status = 403, body_text = ''Access denied'' \<rparr>) =
     Inl (SyntaxError ''Unexpected token'')"
    by (simp add: sample_runtime_def)
  note t1 = dispatcher_parse_or_raw [of sample_runtime "''/CategoryList''" _ "JArr []" _ _ _ _,
      THEN conjunct1, rule_format, OF f1, THEN conjunct2, THEN conjunct1, rule_format, OF p1, THEN conjunct1]
  note t2 = dispatcher_parse_or_raw [of sample_runtime "''/sidebyside''" _ _ _ _ "load_config readme_env" readme_fields,
      THEN conjunct2, rule_format, OF f2, THEN conjunct2, THEN conjunct2, rule_format, OF p2]
  from f1 p1 t1 f2 p2 t2 show ?thesis by (intro conjI)
qed

text \<open>
  \<^bold>\<open>C7\<close>. \<open>buildHealthParams\<close> runs \<open>buildQuoteParams\<close> and then the copy loop over
  the health fields on its result. No health field bears the name of a base field, so the
  result is the base object followed by entries under health-field names only: every key
  of the base output is in the composed output with the same value, and nothing of the
  base is overwritten. Given the base output, the composed one exists exactly when
  \<^verbatim>\<open>String\<close> does not throw on a health field of the body.
\<close>

theorem health_extends_quote:
  "buildHealthParams body =
     (case buildQuoteParams body of
        Inl e \<Rightarrow> Inl e
      | Inr base \<Rightarrow> copy_fields body healthFields base) \<and>
   set healthFields \<inter> set (required @ optional) = {} \<and>
   (buildQuoteParams body = Inr base \<and> buildHealthParams body = Inr h \<longrightarrow>
      (\<exists>ext. h = base @ ext \<and> fst ` set ext \<subseteq> set healthFields) \<and>
      (map_of base k = Some v \<longrightarrow> map_of h k = Some v)) \<and>
   (buildQuoteParams body = Inr base \<longrightarrow>
      ((\<exists>h. buildHealthParams body = Inr h) \<longleftrightarrow>
       (\<forall>k \<in> set healthFields. \<exists>s. String_js (get body k) = Inr s))) \<and>
   (buildHealthParams body = Inr h \<longrightarrow> (\<exists>base. buildQuoteParams body = Inr base))"
proof (intro conjI impI)
  show "buildHealthParams body =
     (case buildQuoteParams body of
        Inl e \<Rightarrow> Inl e
      | Inr base \<Rightarrow> copy_fields body healthFields base)"
    by (simp add: buildHealthParams_def)
  show "set healthFields \<inter> set (required @ optional) = {}"
    by (rule health_disjoint)
next
  assume a: "buildQuoteParams body = Inr base \<and> buildHealthParams body = Inr h"
  then show "\<exists>ext. h = base @ ext \<and> fst ` set ext \<subseteq> set healthFields"
    using buildHealthParams_append [of body base h] by blast
  assume "map_of base k = Some v"
  with a show "map_of h k = Some v"
    using buildHealthParams_keeps [of body base h k v] by blast
next
  assume "buildQuoteParams body = Inr base"
  then show "(\<exists>h. buildHealthParams body = Inr h) \<longleftrightarrow>
       (\<forall>k \<in> set healthFields. \<exists>s. String_js (get body k) = Inr s)"
    by (rule buildHealthParams_total)
next
  assume "buildHealthParams body = Inr h"
  then show "\<exists>base. buildQuoteParams body = Inr base"
    by (auto simp: buildHealthParams_def split: sum.splits)
qed

theorem health_extends_quote_witness:
  "buildQuoteParams [(''State'', JStr ''MS''), (''Alcohol'', JStr ''Y''), (''Weight'', JNum 180)] =
     Inr [(''State'', JStr ''MS''), (''CompRating'', JStr ''4''),
          (''SortOverride1'', JStr ''A''), (''LANGUAGE'', JStr ''E'')] \<and>
   buildHealthParams [(''State'', JStr ''MS''), (''Alcohol'', JStr ''Y''), (''Weight'', JNum 180)] =
     Inr [(''State'', JStr ''MS''), (''CompRating'', JStr ''4''),
          (''SortOverride1'', JStr ''A''), (''LANGUAGE'', JStr ''E''),
          (''Weight'', JStr ''180''), (''Alcohol'', JStr ''Y'')] \<and>
   map_of [(''State'', JStr ''MS''), (''CompRating'', JStr ''4''),
          (''SortOverride1'', JStr ''A''), (''LANGUAGE'', JStr ''E'')] ''State'' = Some (JStr ''MS'') \<and>
   map_of [(''State'', JStr ''MS''), (''CompRating'', JStr ''4''),
          (''SortOverride1'', JStr ''A''), (''LANGUAGE'', JStr ''E''),
          (''Weight'', JStr ''180''), (''Alcohol'', JStr ''Y'')] ''State'' = Some (JStr ''MS'')"
proof -
  have b: "buildQuoteParams [(''State'', JStr ''MS''), (''Alcohol'', JStr ''Y''), (''Weight'', JNum 180)] =
     Inr [(''State'', JStr ''MS''), (''CompRating'', JStr ''4''),
          (''SortOverride1'', JStr ''A''), (''LANGUAGE'', JStr ''E'')]"
    by code_simp
  have h: "buildHealthParams [(''State'', JStr ''MS''), (''Alcohol'', JStr ''Y''), (''Weight'', JNum 180)] =
     Inr [(''State'', JStr ''MS''), (''CompRating'', JStr ''4''),
          (''SortOverride1'', JStr ''A''), (''LANGUAGE'', JStr ''E''),
          (''Weight'', JStr ''180''), (''Alcohol'', JStr ''Y'')]"
    by code_simp
  have m: "map_of [(''State'', JStr ''MS''), (''CompRating'', JStr ''4''),
          (''SortOverride1'', JStr ''A''), (''LANGUAGE'', JStr ''E'')] ''State'' = Some (JStr ''MS'')"
    by simp
  note t = health_extends_quote [of "[(''State'', JStr ''MS''), (''Alcohol'', JStr ''Y''), (''Weight'', JNum 180)]"
      "[(''State'', JStr ''MS''), (''CompRating'', JStr ''4''),
          (''SortOverride1'', JStr ''A''), (''LANGUAGE'', JStr ''E'')]"
      "[(''State'', JStr ''MS''), (''CompRating'', JStr ''4''),
          (''SortOverride1'', JStr ''A''), (''LANGUAGE'', JStr ''E''),
          (''Weight'', JStr ''180''), (''Alcohol'', JStr ''Y'')]" "''State''" "JStr ''MS''",
      THEN conjunct2, THEN conjunct2, THEN conjunct1, rule_format, OF conjI, OF b h,
      THEN conjunct2, rule_format, OF m]
  from b h m t show ?thesis by (intro conjI)
qed

text \<open>
  \<^bold>\<open>C8\<close> (amended). \<^verbatim>\<open>POST /anthropic\<close>, the two storage routes, \<^verbatim>\<open>POST /drive/upload\<close> and
  \<^verbatim>\<open>POST /vision/ocr\<close> answer 500 with a message naming the missing configuration when
  their credential is empty, for any body and before any outbound call; an unset
  \<^verbatim>\<open>ANTHROPIC_API_KEY\<close> gives the empty key. The Compulife private calls and the CRM
  helper have no such test: with an empty \<^verbatim>\<open>AUTH_ID\<close> or \<^verbatim>\<open>GHL_API_KEY\<close> the call is
  made and carries the empty credential.
\<close>

theorem unconfigured_integrations:
  "(ANTHROPIC_API_KEY cfg = [] \<longrightarrow>
      post_anthropic cfg rt req_body =
        ([], Response 500 (JObj [(''error'', JStr ''ANTHROPIC_API_KEY not configured'')]))) \<and>
   (env ''ANTHROPIC_API_KEY'' = None \<longrightarrow> ANTHROPIC_API_KEY (load_config env) = []) \<and>
   (SUPABASE_SERVICE_KEY cfg = [] \<longrightarrow>
      post_supabase_upload cfg continue req_body = ([], not_configured ''SUPABASE_SERVICE_KEY'') \<and>
      get_supabase_signed_url cfg continue req_body = ([], not_configured ''SUPABASE_SERVICE_KEY'')) \<and>
   (GOOGLE_CLIENT_ID cfg = [] \<or> GOOGLE_CLIENT_SECRET cfg = [] \<or> GOOGLE_REFRESH_TOKEN cfg = [] \<longrightarrow>
      post_drive_upload cfg continue req_body = ([], not_configured ''Google Drive'')) \<and>
   (GCP_VISION_API_KEY cfg = [] \<longrightarrow>
      post_vision_ocr cfg continue req_body = ([], not_configured ''GCP_VISION_API_KEY'')) \<and>
   (AUTH_ID cfg = [] \<and>
    (get body ''action'' = JStr ''quote-sidebyside'' \<or> get body ''action'' = JStr ''quote-compare'') \<and>
    buildCompulifeParams body = Inr params \<longrightarrow>
      fst (post_root cfg rt (JObj body)) =
        [GetCompulife (COMPULIFE_BASE @ ''/sidebyside'') (private_payload cfg params)] \<and>
      map_of (private_payload cfg params) ''COMPULIFEAUTHORIZATIONID'' = Some (JStr [])) \<and>
   (GHL_API_KEY cfg = [] \<longrightarrow>
      fst (post_ghl_contacts cfg rt req_body) =
        [Send ''POST'' (GHL_BASE @ ''/contacts/'')
           [(''Authorization'', ''Bearer ''), (''Content-Type'', ''application/json''),
            (''Version'', ''2021-07-28'')]
           (Some (JObj (with_location cfg req_body)))])"
proof (intro conjI impI)
  assume "ANTHROPIC_API_KEY cfg = []"
  then show "post_anthropic cfg rt req_body =
        ([], Response 500 (JObj [(''error'', JStr ''ANTHROPIC_API_KEY not configured'')]))"
    by (simp add: post_anthropic_def)
next
  assume "env ''ANTHROPIC_API_KEY'' = None"
  then show "ANTHROPIC_API_KEY (load_config env) = []"
    by (simp add: load_config_def env_or_def)
next
  assume "SUPABASE_SERVICE_KEY cfg = []"
  then show "post_supabase_upload cfg continue req_body = ([], not_configured ''SUPABASE_SERVICE_KEY'')"
    and "get_supabase_signed_url cfg continue req_body = ([], not_configured ''SUPABASE_SERVICE_KEY'')"
    by (simp_all add: post_supabase_upload_def get_supabase_signed_url_def)
next
  assume "GOOGLE_CLIENT_ID cfg = [] \<or> GOOGLE_CLIENT_SECRET cfg = [] \<or> GOOGLE_REFRESH_TOKEN cfg = []"
  then show "post_drive_upload cfg continue req_body = ([], not_configured ''Google Drive'')"
    by (simp add: post_drive_upload_def)
next
  assume "GCP_VISION_API_KEY cfg = []"
  then show "post_vision_ocr cfg continue req_body = ([], not_configured ''GCP_VISION_API_KEY'')"
    by (simp add: post_vision_ocr_def)
next
  assume a: "AUTH_ID cfg = [] \<and>
    (get body ''action'' = JStr ''quote-sidebyside'' \<or> get body ''action'' = JStr ''quote-compare'') \<and>
    buildCompulifeParams body = Inr params"
  then have e: "AUTH_ID cfg = []"
    and act: "get body ''action'' = JStr ''quote-sidebyside'' \<or> get body ''action'' = JStr ''quote-compare''"
    and b: "buildCompulifeParams body = Inr params"
    by (rule conjunct1, rule conjunct2 [THEN conjunct1], rule conjunct2 [THEN conjunct2])
  from post_root_quote [OF act b, of cfg rt]
  show "fst (post_root cfg rt (JObj body)) =
        [GetCompulife (COMPULIFE_BASE @ ''/sidebyside'') (private_payload cfg params)]"
    by (simp add: calls_proxyPrivate)
  from built_payload_credentials [OF b, of cfg] e
  show "map_of (private_payload cfg params) ''COMPULIFEAUTHORIZATIONID'' = Some (JStr [])"
    by simp
next
  assume "GHL_API_KEY cfg = []"
  then show "fst (post_ghl_contacts cfg rt req_body) =
        [Send ''POST'' (GHL_BASE @ ''/contacts/'')
           [(''Authorization'', ''Bearer ''), (''Content-Type'', ''application/json''),
            (''Version'', ''2021-07-28'')]
           (Some (JObj (with_location cfg req_body)))]"
    by (simp add: calls_post_ghl ghl_headers_def)
qed

theorem unconfigured_integrations_witness:
  "ANTHROPIC_API_KEY (load_config bare_env) = [] \<and>
   post_anthropic (load_config bare_env) sample_runtime (JObj [(''image'', JStr ''aGk='')]) =
     ([], Response 500 (JObj [(''error'', JStr ''ANTHROPIC_API_KEY not configured'')])) \<and>
   SUPABASE_SERVICE_KEY (load_config bare_env) = [] \<and>
   post_supabase_upload (load_config bare_env) (post_anthropic (load_config bare_env) sample_runtime)
       (JObj [(''imageData'', JStr ''aGk='')]) =
     ([], not_configured ''SUPABASE_SERVICE_KEY'') \<and>
   GCP_VISION_API_KEY (load_config bare_env) = [] \<and>
   post_vision_ocr (load_config bare_env) (post_anthropic (load_config bare_env) sample_runtime)
       (JObj [(''imageData'', JStr ''aGk='')]) =
     ([], not_configured ''GCP_VISION_API_KEY'') \<and>
   AUTH_ID (load_config bare_env) = [] \<and>
   get readme_quote ''action'' = JStr ''quote-compare'' \<and>
   buildCompulifeParams readme_quote = Inr readme_fields \<and>
   fst (post_root (load_config bare_env) sample_runtime (JObj readme_quote)) =
     [GetCompulife (COMPULIFE_BASE @ ''/sidebyside'') (private_payload (load_config bare_env) readme_fields)] \<and>
   map_of (private_payload (load_config bare_env) readme_fields) ''COMPULIFEAUTHORIZATIONID'' = Some (JStr [])"
proof -
  have k: "ANTHROPIC_API_KEY (load_config bare_env) = []"
    by (simp add: load_config_def env_or_def bare_env_def)
  have s: "SUPABASE_SERVICE_KEY (load_config bare_env) = []"
    by (simp add: load_config_def env_or_def bare_env_def)
  have v: "GCP_VISION_API_KEY (load_config bare_env) = []"
    by (simp add: load_config_def env_or_def bare_env_def)
  have e: "AUTH_ID (load_config bare_env) = []"
    by (simp add: load_config_def env_or_def bare_env_def)
  have a: "get readme_quote ''action'' = JStr ''quote-compare''" by code_simp
  have b: "buildCompulifeParams readme_quote = Inr readme_fields" by code_simp
  note t = unconfigured_integrations [of "load_config bare_env" sample_runtime _ _
      "post_anthropic (load_config bare_env) sample_runtime" readme_quote readme_fields]
  note t1 = t [of "JObj [(''image'', JStr ''aGk='')]", THEN conjunct1, rule_format, OF k]
  note t3 = t [of "JObj [(''imageData'', JStr ''aGk='')]", THEN conjunct2, THEN conjunct2, THEN conjunct1,
      rule_format, OF s, THEN conjunct1]
  note t5 = t [of "JObj [(''imageData'', JStr ''aGk='')]", THEN conjunct2, THEN conjunct2, THEN conjunct2,
      THEN conjunct2, THEN conjunct1, rule_format, OF v]
  note t6 = t [of JNull, THEN conjunct2, THEN conjunct2, THEN conjunct2, THEN conjunct2, THEN conjunct2,
      THEN conjunct1, rule_format, OF conjI, OF e conjI, OF disjI2 b, OF a]
  from k t1 s t3 v t5 e a b t6 [THEN conjunct1] t6 [THEN conjunct2] show ?thesis by (intro conjI)
qed

text \<open>
  As C8 is stated, every endpoint whose integration needs a credential answers 500 without
  an outbound call when the credential is empty. With nothing set in the environment
  \<^verbatim>\<open>AUTH_ID\<close> is empty, and the README's quote request is still sent to Compulife.
\<close>

theorem empty_auth_id_still_called_counterexample:
  "AUTH_ID (load_config bare_env) = [] \<and>
   post_root (load_config bare_env) sample_runtime (JObj readme_quote) =
     ([GetCompulife ''https://www.compulifeapi.com/api/sidebyside''
         [(''COMPULIFEAUTHORIZATIONID'', JStr []), (''REMOTE_IP'', JStr ''162.220.232.99''),
          (''State'', JStr ''MS''), (''BirthMonth'', JStr ''6''), (''Birthday'', JStr ''15''),
          (''BirthYear'', JStr ''1967''), (''Sex'', JStr ''M''), (''Smoker'', JStr ''N''),
          (''Health'', JStr ''PP''), (''NewCategory'', JStr ''5''), (''FaceAmount'', JStr ''250000''),
          (''ModeUsed'', JStr ''M'')]],
      Response 200 (JObj [(''raw'', JStr ''Access denied''), (''status'', JNum 403)]))"
  by code_simp

text \<open>
  \<^bold>\<open>C9\<close>. \<^verbatim>\<open>POST /ghl/contacts\<close> and \<^verbatim>\<open>POST /ghl/opportunities\<close> make one call each, whose
  JSON body is the client's body with \<^verbatim>\<open>locationId\<close> set last: it always holds the
  configured \<^verbatim>\<open>GHL_LOCATION_ID\<close>, so any two request bodies, whatever they hold under
  \<^verbatim>\<open>locationId\<close>, give the same outbound \<^verbatim>\<open>locationId\<close>.
\<close>

theorem ghl_location_fixed:
  "fst (post_ghl_contacts cfg rt req_body) =
     [Send ''POST'' (GHL_BASE @ ''/contacts/'') (ghl_headers cfg) (Some (JObj (with_location cfg req_body)))] \<and>
   fst (post_ghl_opportunities cfg rt req_body) =
     [Send ''POST'' (GHL_BASE @ ''/opportunities/'') (ghl_headers cfg) (Some (JObj (with_location cfg req_body)))] \<and>
   map_of (with_location cfg req_body) ''locationId'' = Some (JStr (GHL_LOCATION_ID cfg)) \<and>
   map_of (with_location cfg req_body) ''locationId'' = map_of (with_location cfg req_body') ''locationId'' \<and>
   (distinct (map fst kvs) \<longrightarrow>
      with_location cfg (JObj kvs) = AList.update ''locationId'' (JStr (GHL_LOCATION_ID cfg)) kvs)"
  by (simp add: calls_post_ghl with_location_locationId with_location_object)

theorem ghl_location_fixed_witness:
  "post_ghl_contacts (load_config (map_of [(''GHL_LOCATION_ID'', ''loc-1'')])) sample_runtime
     (JObj [(''locationId'', JStr ''other''), (''name'', JStr ''Ann'')]) =
     ([Send ''POST'' ''https://services.leadconnectorhq.com/contacts/''
         [(''Authorization'', ''Bearer ''), (''Content-Type'', ''application/json''), (''Version'', ''2021-07-28'')]
         (Some (JObj [(''locationId'', JStr ''loc-1''), (''name'', JStr ''Ann'')]))],
      Response 500 (JObj [(''error'', JBool True), (''message'', JStr ''fetch failed'')])) \<and>
   map_of (with_location (load_config (map_of [(''GHL_LOCATION_ID'', ''loc-1'')]))
             (JObj [(''locationId'', JStr ''other''), (''name'', JStr ''Ann'')])) ''locationId'' =
     map_of (with_location (load_config (map_of [(''GHL_LOCATION_ID'', ''loc-1'')]))
             (JObj [(''name'', JStr ''Ann'')])) ''locationId'' \<and>
   distinct (map fst [(''locationId'', JStr ''other''), (''name'', JStr ''Ann'')]) \<and>
   with_location (load_config (map_of [(''GHL_LOCATION_ID'', ''loc-1'')]))
       (JObj [(''locationId'', JStr ''other''), (''name'', JStr ''Ann'')]) =
     AList.update ''locationId'' (JStr (GHL_LOCATION_ID (load_config (map_of [(''GHL_LOCATION_ID'', ''loc-1'')]))))
       [(''locationId'', JStr ''other''), (''name'', JStr ''Ann'')]"
proof -
  have 1: "post_ghl_contacts (load_config (map_of [(''GHL_LOCATION_ID'', ''loc-1'')])) sample_runtime
     (JObj [(''locationId'', JStr ''other''), (''name'', JStr ''Ann'')]) =
     ([Send ''POST'' ''https://services.leadconnectorhq.com/contacts/''
         [(''Authorization'', ''Bearer ''), (''Content-Type'', ''application/json''), (''Version'', ''2021-07-28'')]
         (Some (JObj [(''locationId'', JStr ''loc-1''), (''name'', JStr ''Ann'')]))],
      Response 500 (JObj [(''error'', JBool True), (''message'', JStr ''fetch failed'')]))"
    by code_simp
  have d: "distinct (map fst [(''locationId'', JStr ''other''), (''name'', JStr ''Ann'')])"
    by simp
  note t = ghl_location_fixed [of "load_config (map_of [(''GHL_LOCATION_ID'', ''loc-1'')])" sample_runtime
      "JObj [(''locationId'', JStr ''other''), (''name'', JStr ''Ann'')]" "JObj [(''name'', JStr ''Ann'')]"
      "[(''locationId'', JStr ''other''), (''name'', JStr ''Ann'')]",
      THEN conjunct2, THEN conjunct2, THEN conjunct2]
  from 1 t [THEN conjunct1] d t [THEN conjunct2, rule_format, OF d] show ?thesis by (intro conjI)
qed

text \<open>
  \<^bold>\<open>C10\<close>. The falsy values are undefined, null, the empty string, false and 0. When the
  action of the request body is one of them, or the body has no action at all, every
  router answers 200 with its health payload and makes no downstream call.
\<close>

theorem falsy_action_is_ping:
  "(\<not> truthy v \<longleftrightarrow> v \<in> {JUndefined, JNull, JStr [], JBool False, JNum 0}) \<and>
   (\<not> truthy (get (fields_of req_body) ''action'') \<longrightarrow>
      post_root cfg rt req_body =
        ([], Response 200 (JObj [(''status'', JStr ''ok''), (''service'', JStr ''compulife-proxy''),
                                 (''timestamp'', JStr (now_iso rt))])) \<and>
      post_root_v1 cfg rt req_body =
        ([], Response 200 (JObj [(''status'', JStr ''ok''), (''service'', JStr ''compulife-proxy''),
                                 (''timestamp'', JStr (now_iso rt)),
                                 (''auth_configured'', JBool (AUTH_ID cfg \<noteq> []))])) \<and>
      post_root_v2 cfg rt req_body =
        ([], Response 200 (JObj [(''status'', JStr ''ok''), (''service'', JStr ''quoteit-api-hub''),
                                 (''timestamp'', JStr (now_iso rt)),
                                 (''auth_configured'', JBool (AUTH_ID cfg \<noteq> [])),
                                 (''remote_ip'', JStr (REMOTE_IP cfg))])))"
proof (intro conjI impI)
  show "\<not> truthy v \<longleftrightarrow> v \<in> {JUndefined, JNull, JStr [], JBool False, JNum 0}"
    by (rule falsy_values)
next
  assume f: "\<not> truthy (get (fields_of req_body) ''action'')"
  then show "post_root cfg rt req_body =
        ([], Response 200 (JObj [(''status'', JStr ''ok''), (''service'', JStr ''compulife-proxy''),
                                 (''timestamp'', JStr (now_iso rt))]))"
    by (simp add: post_root_def or_else_def)
  from f show "post_root_v1 cfg rt req_body =
        ([], Response 200 (JObj [(''status'', JStr ''ok''), (''service'', JStr ''compulife-proxy''),
                                 (''timestamp'', JStr (now_iso rt)),
                                 (''auth_configured'', JBool (AUTH_ID cfg \<noteq> []))]))"
    by (simp add: post_root_v1_def or_else_def)
  from f show "post_root_v2 cfg rt req_body =
        ([], Response 200 (JObj [(''status'', JStr ''ok''), (''service'', JStr ''quoteit-api-hub''),
                                 (''timestamp'', JStr (now_iso rt)),
                                 (''auth_configured'', JBool (AUTH_ID cfg \<noteq> [])),
                                 (''remote_ip'', JStr (REMOTE_IP cfg))]))"
    by (simp add: post_root_v2_def or_else_def)
qed

theorem falsy_action_is_ping_witness:
  "\<not> truthy (get (fields_of (JObj [(''action'', JNum 0), (''State'', JStr ''MS'')])) ''action'') \<and>
   post_root (load_config readme_env) sample_runtime (JObj [(''action'', JNum 0), (''State'', JStr ''MS'')]) =
     ([], Response 200 (JObj [(''status'', JStr ''ok''), (''service'', JStr ''compulife-proxy''),
                              (''timestamp'', JStr (now_iso sample_runtime))]))"
proof -
  have f: "\<not> truthy (get (fields_of (JObj [(''action'', JNum 0), (''State'', JStr ''MS'')])) ''action'')"
    by (simp add: get_def)
  note t = falsy_action_is_ping [of _ "JObj [(''action'', JNum 0), (''State'', JStr ''MS'')]"
      "load_config readme_env" sample_runtime, THEN conjunct2, rule_format, OF f, THEN conjunct1]
  from f t show ?thesis by (intro conjI)
qed

end
